theory Spec2Isabelle
  imports Complex_Main
begin

section \<open>Conventions of the embedding\<close>

text \<open>
  The program is \<^verbatim>\<open>src/app.py\<close>. A finite Python float is embedded as the \<^typ>\<open>real\<close>
  number it denotes; infinities and NaN values have no counterpart, except that a NaN
  entry of a pandas series is \<open>None\<close> in a \<^typ>\<open>real option list\<close>. The arithmetic of the
  sentiment score and of every division of Python floats is IEEE double arithmetic
  (\<open>round_double\<close> below rounds each result). The one other float operation of the Python
  statements, the difference of MACD and its signal line, is only tested for its sign,
  which rounding does not change. What the packages numpy, pandas and \<^verbatim>\<open>ta\<close> compute on
  arrays is library code: it is a parameter (the indicators) or idealised as exact (the
  regression, the mean close), and no theorem states a value that depends on its rounding.
  A Python value that may be \<^verbatim>\<open>None\<close> is an \<open>option\<close>, with \<open>None\<close> for \<^verbatim>\<open>None\<close>.
  Every exception of the source is a value of \<open>error\<close>, and a function that can raise
  returns \<open>error + 'a\<close> with \<open>Inl\<close> for the exception.
\<close>

datatype error =
  KeyError | IndexError | ValueError | TypeError | ZeroDivisionError | OverflowError
  | UpstreamError

text \<open>
  Sequencing of statements that can raise: the first exception ends the computation.
\<close>

definition bind_err :: "error + 'a \<Rightarrow> ('a \<Rightarrow> error + 'b) \<Rightarrow> error + 'b" where
  "bind_err m f = (case m of Inl e \<Rightarrow> Inl e | Inr v \<Rightarrow> f v)"

section \<open>The cache: \<^verbatim>\<open>get_cached_data\<close>\<close>

text \<open>
  \<^verbatim>\<open>data_cache\<close> and \<^verbatim>\<open>cache_timestamp\<close> are the two global dictionaries. The stored value
  is whatever the fetch function returned, so it is an \<open>option\<close>: Python's \<^verbatim>\<open>None\<close> is a
  value a fetch function may return.
\<close>

record ('k, 'v) cache =
  data_cache :: "'k \<rightharpoonup> 'v option"
  cache_timestamp :: "'k \<rightharpoonup> real"

definition CACHE_DURATION :: real where
  "CACHE_DURATION = 300"

text \<open>
  A fetch function acts on the world outside the process (type \<open>'w\<close>): called in world
  \<open>w\<close> it either raises or returns a value, and leaves a new world. A call of
  \<^verbatim>\<open>get_cached_data\<close> that returns the world it was given has not called the fetch
  function. \<open>current_time\<close> is the reading of \<^verbatim>\<open>datetime.now().timestamp()\<close>.
\<close>

type_synonym ('w, 'v) fetch_func = "'w \<Rightarrow> (error + 'v option) \<times> 'w"

text \<open>Lines 37 to 50: the \<^verbatim>\<open>try\<close> block that fetches, and its \<^verbatim>\<open>except\<close> branch.\<close>

definition fetch_fresh ::
  "'k \<Rightarrow> ('w, 'v) fetch_func \<Rightarrow> real \<Rightarrow> ('k, 'v) cache \<times> 'w \<Rightarrow> 'v option \<times> ('k, 'v) cache \<times> 'w"
where
  "fetch_fresh key fetch_func current_time s =
     (case s of (c, w) \<Rightarrow>
        (case fetch_func w of
           (Inr data, w') \<Rightarrow>
             (data,
              c\<lparr>data_cache := (data_cache c)(key \<mapsto> data),
                cache_timestamp := (cache_timestamp c)(key \<mapsto> current_time)\<rparr>,
              w')
         | (Inl e, w') \<Rightarrow>
             (case data_cache c key of
                Some old \<Rightarrow> (old, c, w')
              | None \<Rightarrow> (None, c, w'))))"

definition get_cached_data ::
  "'k \<Rightarrow> ('w, 'v) fetch_func \<Rightarrow> real \<Rightarrow> ('k, 'v) cache \<times> 'w \<Rightarrow> 'v option \<times> ('k, 'v) cache \<times> 'w"
where
  "get_cached_data key fetch_func current_time s =
     (case s of (c, w) \<Rightarrow>
        (case (data_cache c key, cache_timestamp c key) of
           (Some v, Some ts) \<Rightarrow>
             if current_time - ts < CACHE_DURATION then (v, c, w)
             else fetch_fresh key fetch_func current_time s
         | _ \<Rightarrow> fetch_fresh key fetch_func current_time s))"

section \<open>Data model\<close>

datatype signal = BUY | SELL | HOLD

text \<open>
  A row of the DataFrame that \<^verbatim>\<open>fetch_binance_klines\<close> builds; \<open>c_date\<close> is the day
  number of the row's date. A DataFrame is the list of its rows, oldest first; the empty
  list is the DataFrame built from no rows, which has no columns.
\<close>

record candle =
  c_timestamp :: int
  c_date :: int
  c_open :: real
  c_high :: real
  c_low :: real
  c_close :: real
  c_volume :: real

text \<open>\<^verbatim>\<open>df.tail(n)\<close>: the last \<open>n\<close> rows, all of them when there are fewer.\<close>

definition tail :: "nat \<Rightarrow> 'a list \<Rightarrow> 'a list" where
  "tail n xs = drop (length xs - n) xs"

subsection \<open>Series with undefined entries\<close>

text \<open>
  \<^verbatim>\<open>float(s.iloc[-1]) if not s.empty and not pd.isna(s.iloc[-1]) else d\<close>: the last
  entry of a series, or the fallback \<open>d\<close> when the series is empty or ends in NaN.
\<close>

definition last_or :: "real option list \<Rightarrow> real \<Rightarrow> real" where
  "last_or s d = (if s = [] then d else (case last s of None \<Rightarrow> d | Some v \<Rightarrow> v))"

text \<open>
  \<^verbatim>\<open>ffill\<close>, \<^verbatim>\<open>bfill\<close> and the two forms of \<^verbatim>\<open>fillna\<close>: with a constant, and with a
  series aligned by position (an entry stays undefined where the other series has none).
\<close>

fun ffill_from :: "real option \<Rightarrow> real option list \<Rightarrow> real option list" where
  "ffill_from prev [] = []"
| "ffill_from prev (None # xs) = prev # ffill_from prev xs"
| "ffill_from prev (Some v # xs) = Some v # ffill_from (Some v) xs"

definition ffill :: "real option list \<Rightarrow> real option list" where
  "ffill s = ffill_from None s"

definition bfill :: "real option list \<Rightarrow> real option list" where
  "bfill s = rev (ffill_from None (rev s))"

definition fillna_const :: "real \<Rightarrow> real option list \<Rightarrow> real list" where
  "fillna_const d s = map (\<lambda>x. case x of None \<Rightarrow> d | Some v \<Rightarrow> v) s"

definition fillna_series :: "real list \<Rightarrow> real option list \<Rightarrow> real option list" where
  "fillna_series other s =
     map (\<lambda>(i, x). case x of
                      Some v \<Rightarrow> Some v
                    | None \<Rightarrow> if i < length other then Some (other ! i) else None)
         (enumerate 0 s)"

subsection \<open>The indicator library\<close>

text \<open>
  The indicators come from the third-party package \<^verbatim>\<open>ta\<close>, which is not part of the
  repository. The analysis takes them as a parameter: each maps the close prices to a
  series of the same index, undefined (\<open>None\<close>) where the history is too short. The
  arguments before the close prices are the window sizes the source passes.
\<close>

record indicator_lib =
  lib_rsi :: "nat \<Rightarrow> real list \<Rightarrow> real option list"
  lib_macd :: "real list \<Rightarrow> real option list"
  lib_macd_signal :: "real list \<Rightarrow> real option list"
  lib_sma :: "nat \<Rightarrow> real list \<Rightarrow> real option list"
  lib_ema :: "nat \<Rightarrow> real list \<Rightarrow> real option list"
  lib_bb_hband :: "nat \<Rightarrow> nat \<Rightarrow> real list \<Rightarrow> real option list"
  lib_bb_mavg :: "nat \<Rightarrow> nat \<Rightarrow> real list \<Rightarrow> real option list"
  lib_bb_lband :: "nat \<Rightarrow> nat \<Rightarrow> real list \<Rightarrow> real option list"

subsection \<open>The result of \<^verbatim>\<open>compute_for_window\<close>\<close>

record reading =
  rd_value :: real
  rd_signal :: signal

record oscillators =
  osc_rsi :: reading
  osc_macd :: reading

record moving_averages =
  ma_sma_20 :: reading
  ma_sma_50 :: reading
  ma_ema_12 :: reading
  ma_ema_26 :: reading

record summary =
  sum_buy :: int
  sum_sell :: int
  sum_hold :: int

record details =
  det_rsi :: signal
  det_macd :: signal
  det_moving_averages :: signal

record signals =
  sig_overall_signal :: signal
  sig_summary :: summary
  sig_details :: details

record series =
  ser_rsi :: "real list"
  ser_macd :: "real list"
  ser_macd_signal :: "real list"
  ser_sma_20 :: "real option list"
  ser_sma_50 :: "real option list"
  ser_bb_upper :: "real option list"
  ser_bb_middle :: "real option list"
  ser_bb_lower :: "real option list"

record timeframe =
  tf_oscillators :: oscillators
  tf_moving_averages :: moving_averages
  tf_signals :: signals
  tf_series :: series

record technical =
  tech_overall_signal :: signal
  tech_1d :: timeframe
  tech_1w :: timeframe
  tech_1m :: timeframe

section \<open>Technical analysis: \<^verbatim>\<open>compute_technical_analysis\<close>\<close>

text \<open>
  The vote is written twice in the source, in the same words: lines 159 to 168 over the
  three indicator signals and lines 207 to 216 over the three timeframes.
  \<open>count_signal x signals\<close> is \<^verbatim>\<open>sum(1 for s in signals if s == x)\<close>, and \<open>decide\<close> is the
  \<^verbatim>\<open>if\<close>/\<^verbatim>\<open>elif\<close>/\<^verbatim>\<open>else\<close> over the three counts.
\<close>

definition count_signal :: "signal \<Rightarrow> signal list \<Rightarrow> int" where
  "count_signal x signals = (\<Sum>s\<leftarrow>signals. if s = x then 1 else 0)"

definition decide :: "int \<Rightarrow> int \<Rightarrow> int \<Rightarrow> signal" where
  "decide buy sell hold =
     (if buy > sell \<and> buy \<ge> hold then BUY
      else if sell > buy \<and> sell \<ge> hold then SELL
      else HOLD)"

text \<open>
  The inner function \<^verbatim>\<open>compute_for_window\<close>. On the DataFrame without rows the first
  statement, \<^verbatim>\<open>df_window['close']\<close>, raises; otherwise \<^verbatim>\<open>close.iloc[-1]\<close> is the close
  of the last row. The calls into the indicator library are taken not to raise.
\<close>

definition compute_for_window :: "indicator_lib \<Rightarrow> candle list \<Rightarrow> error + timeframe" where
  "compute_for_window lib df_window =
     (if df_window = [] then Inl KeyError
      else
        let close = map c_close df_window;
            rsi_series = lib_rsi lib 14 close;
            macd_series = lib_macd lib close;
            macd_signal_series = lib_macd_signal lib close;
            sma_20_series = lib_sma lib 20 close;
            sma_50_series = lib_sma lib 50 close;
            ema_12_series = lib_ema lib 12 close;
            ema_26_series = lib_ema lib 26 close;
            bb_upper = lib_bb_hband lib 20 2 close;
            bb_middle = lib_bb_mavg lib 20 2 close;
            bb_lower = lib_bb_lband lib 20 2 close;
            rsi_last = last_or rsi_series 50;
            macd_last = last_or macd_series 0;
            macd_signal_last = last_or macd_signal_series 0;
            macd_hist_last = macd_last - macd_signal_last;
            sma_20_last = last_or sma_20_series (last close);
            sma_50_last = last_or sma_50_series (last close);
            ema_12_last = last_or ema_12_series (last close);
            ema_26_last = last_or ema_26_series (last close);
            rsi_signal = (if rsi_last < 30 then BUY else if rsi_last > 70 then SELL else HOLD);
            macd_signal =
              (if macd_hist_last > 0 then BUY else if macd_hist_last < 0 then SELL else HOLD);
            ma_signal =
              (if sma_20_last > sma_50_last then BUY
               else if sma_20_last < sma_50_last then SELL else HOLD);
            signals = [rsi_signal, macd_signal, ma_signal];
            buy = count_signal BUY signals;
            sell = count_signal SELL signals;
            hold = count_signal HOLD signals;
            overall_signal = decide buy sell hold
        in Inr
          \<lparr>tf_oscillators =
             \<lparr>osc_rsi = \<lparr>rd_value = rsi_last, rd_signal = rsi_signal\<rparr>,
              osc_macd = \<lparr>rd_value = macd_last, rd_signal = macd_signal\<rparr>\<rparr>,
           tf_moving_averages =
             \<lparr>ma_sma_20 =
                \<lparr>rd_value = sma_20_last,
                 rd_signal = (if last close > sma_20_last then BUY else SELL)\<rparr>,
              ma_sma_50 = \<lparr>rd_value = sma_50_last, rd_signal = ma_signal\<rparr>,
              ma_ema_12 =
                \<lparr>rd_value = ema_12_last,
                 rd_signal = (if ema_12_last > ema_26_last then BUY else SELL)\<rparr>,
              ma_ema_26 =
                \<lparr>rd_value = ema_26_last,
                 rd_signal = (if ema_12_last > ema_26_last then BUY else SELL)\<rparr>\<rparr>,
           tf_signals =
             \<lparr>sig_overall_signal = overall_signal,
              sig_summary = \<lparr>sum_buy = buy, sum_sell = sell, sum_hold = hold\<rparr>,
              sig_details =
                \<lparr>det_rsi = rsi_signal, det_macd = macd_signal,
                 det_moving_averages = ma_signal\<rparr>\<rparr>,
           tf_series =
             \<lparr>ser_rsi = tail 90 (fillna_const 50 (bfill (ffill rsi_series))),
              ser_macd = tail 90 (fillna_const 0 (bfill (ffill macd_series))),
              ser_macd_signal = tail 90 (fillna_const 0 (bfill (ffill macd_signal_series))),
              ser_sma_20 = tail 90 (fillna_series close (bfill (ffill sma_20_series))),
              ser_sma_50 = tail 90 (fillna_series close (bfill (ffill sma_50_series))),
              ser_bb_upper = tail 90 (fillna_series close (bfill (ffill bb_upper))),
              ser_bb_middle = tail 90 (fillna_series close (bfill (ffill bb_middle))),
              ser_bb_lower = tail 90 (fillna_series close (bfill (ffill bb_lower)))\<rparr>\<rparr>)"

text \<open>
  The three timeframes and the vote over their overall signals. An exception of
  \<^verbatim>\<open>compute_for_window\<close> leaves \<^verbatim>\<open>compute_technical_analysis\<close> as it was raised.
\<close>

definition compute_technical_analysis :: "indicator_lib \<Rightarrow> candle list \<Rightarrow> error + technical" where
  "compute_technical_analysis lib df =
     (case compute_for_window lib (tail 90 df) of
        Inl e \<Rightarrow> Inl e
      | Inr tf_1d \<Rightarrow>
     (case compute_for_window lib (tail 30 df) of
        Inl e \<Rightarrow> Inl e
      | Inr tf_1w \<Rightarrow>
     (case compute_for_window lib (tail 90 df) of
        Inl e \<Rightarrow> Inl e
      | Inr tf_1m \<Rightarrow>
        let signals =
              [sig_overall_signal (tf_signals tf_1d),
               sig_overall_signal (tf_signals tf_1w),
               sig_overall_signal (tf_signals tf_1m)];
            buy = count_signal BUY signals;
            sell = count_signal SELL signals;
            hold = count_signal HOLD signals;
            overall_signal = decide buy sell hold
        in Inr
          \<lparr>tech_overall_signal = overall_signal,
           tech_1d = tf_1d, tech_1w = tf_1w, tech_1m = tf_1m\<rparr>)))"

section \<open>Arithmetic of the Python runtime\<close>

text \<open>
  Rounding to the nearest integer, a tie going to the even neighbour.
\<close>

definition round_half_even :: "real \<Rightarrow> int" where
  "round_half_even x =
     (let f = \<lfloor>x\<rfloor>; d = x - of_int f
      in if d < 1 / 2 then f else if d > 1 / 2 then f + 1
         else if even f then f else f + 1)"

text \<open>
  IEEE 754 double precision, round to nearest, ties to even. \<open>binade n m e\<close> scales \<open>m\<close>
  into \<open>[1, 2)\<close> by at most \<open>n\<close> halvings or doublings and counts them in \<open>e\<close>, so that
  \<open>binade 2200 \<bar>x\<bar> 0\<close> is the binary exponent of \<open>x\<close> for every exact sum, difference,
  product or quotient of two doubles. A double has 53 significant bits, and no bit below
  \<open>2 ^ -1074\<close> (the subnormal range). A result of magnitude \<open>2 ^ 1024\<close> or more is an
  infinity in the program and has no counterpart here.
\<close>

fun binade :: "nat \<Rightarrow> real \<Rightarrow> int \<Rightarrow> int" where
  "binade 0 m e = e"
| "binade (Suc n) m e =
     (if 2 \<le> m then binade n (m / 2) (e + 1)
      else if m < 1 then binade n (m * 2) (e - 1)
      else e)"

definition pow2 :: "int \<Rightarrow> real" where
  "pow2 q = (if 0 \<le> q then 2 ^ nat q else 1 / 2 ^ nat (- q))"

definition round_double :: "real \<Rightarrow> real" where
  "round_double x =
     (if x = 0 then 0
      else
        let e = binade 2200 \<bar>x\<bar> 0;
            q = max (e - 52) (- 1074)
        in of_int (round_half_even (x / pow2 q)) * pow2 q)"

text \<open>The sum, difference and quotient of two floats, for a divisor known not to be zero.\<close>

definition fl_add :: "real \<Rightarrow> real \<Rightarrow> real" where
  "fl_add a b = round_double (a + b)"

definition fl_sub :: "real \<Rightarrow> real \<Rightarrow> real" where
  "fl_sub a b = round_double (a - b)"

definition fl_div :: "real \<Rightarrow> real \<Rightarrow> real" where
  "fl_div a b = round_double (a / b)"

text \<open>
  Division of two Python floats raises \<^verbatim>\<open>ZeroDivisionError\<close> on a zero divisor; HOL's
  \<open>x / 0\<close> is \<open>0\<close>, so the check is written out.
\<close>

definition py_div :: "real \<Rightarrow> real \<Rightarrow> error + real" where
  "py_div a b = (if b = 0 then Inl ZeroDivisionError else Inr (fl_div a b))"

text \<open>
  An \<^verbatim>\<open>int\<close> operand of a float operation is converted to a float first: to the nearest
  double, and with \<^verbatim>\<open>OverflowError\<close> ("int too large to convert to float") when that would
  be \<open>2 ^ 1024\<close> in magnitude, which is from \<open>2 ^ 1024 - 2 ^ 970\<close> on.
\<close>

definition float_of_int :: "int \<Rightarrow> error + real" where
  "float_of_int n =
     (if \<bar>n\<bar> \<ge> 2 ^ 1024 - 2 ^ 970 then Inl OverflowError
      else Inr (round_double (of_int n)))"

text \<open>
  \<^verbatim>\<open>round(x, nd)\<close> on a float: the exact value of \<open>x\<close> rounded to \<open>nd\<close> decimals, a tie
  going to the even neighbour, and the double nearest to that decimal.
\<close>

definition py_round :: "nat \<Rightarrow> real \<Rightarrow> real" where
  "py_round nd x = round_double (of_int (round_half_even (x * 10 ^ nd)) / 10 ^ nd)"

definition np_mean :: "real list \<Rightarrow> real" where
  "np_mean xs = sum_list xs / real (length xs)"

text \<open>\<^verbatim>\<open>np.maximum(y, c)\<close>, element by element.\<close>

definition np_maximum :: "real list \<Rightarrow> real \<Rightarrow> real list" where
  "np_maximum ys c = map (\<lambda>v. max v c) ys"

text \<open>
  Modelled from the spec: \<^verbatim>\<open>np.polyfit(x, y, 1)\<close> and \<^verbatim>\<open>np.polyval\<close> are library code; the
  spec (4.4) says "fit a degree-1 least-squares line over index positions", and
  \<open>polyfit1\<close> is that line in closed form, as the pair (slope, intercept).
\<close>

definition polyfit1 :: "real list \<Rightarrow> real list \<Rightarrow> real \<times> real" where
  "polyfit1 xs ys =
     (let mx = np_mean xs; my = np_mean ys;
          sxy = (\<Sum>(x, y)\<leftarrow>zip xs ys. (x - mx) * (y - my));
          sxx = (\<Sum>x\<leftarrow>xs. (x - mx) ^ 2);
          slope = sxy / sxx
      in (slope, my - slope * mx))"

definition polyval :: "real \<times> real \<Rightarrow> real \<Rightarrow> real" where
  "polyval coeffs x = fst coeffs * x + snd coeffs"

section \<open>Forecast: \<^verbatim>\<open>compute_lstm_like_prediction\<close>\<close>

record model_performance =
  RMSE :: real
  MAPE :: real
  R2 :: real

record future_predictions =
  fp_dates :: "int list"
  fp_predictions :: "real list"
  fp_current_price :: real

record lstm_prediction =
  lp_model_performance :: model_performance
  lp_future_predictions :: future_predictions
  lp_model_trained :: bool

text \<open>
  \<^verbatim>\<open>[v] * days\<close> and \<^verbatim>\<open>np.arange(n, n + days)\<close> are empty for a negative \<open>days\<close>;
  \<^verbatim>\<open>pd.date_range(..., periods=days)\<close> then raises. The dates are day numbers. On the
  DataFrame without rows \<^verbatim>\<open>df['close']\<close> raises. The fit, the residuals and the sums are
  numpy's and are idealised as exact; only the division and the subtraction of \<^verbatim>\<open>r2\<close> are
  operations on Python floats.
\<close>

definition compute_lstm_like_prediction :: "candle list \<Rightarrow> int \<Rightarrow> error + lstm_prediction" where
  "compute_lstm_like_prediction df days =
     (if df = [] then Inl KeyError
      else
        let close = map c_close df;
            recent = tail 60 close;
            y = recent;
            x = map real [0..<length y]
        in
        case
          (if length y < 10 then Inr (replicate (nat days) (last close), 0, 0, 0)
           else
             let coeffs = polyfit1 x y;
                 y_hat = map (polyval coeffs) x;
                 residual = map (\<lambda>(a, b). a - b) (zip y y_hat);
                 rmse = sqrt (np_mean (map (\<lambda>r. r ^ 2) residual));
                 mape =
                   np_mean (map (\<lambda>(r, m). \<bar>r / m\<bar>) (zip residual (np_maximum y (1 / 10 ^ 9))))
                     * 100;
                 ss_res = (\<Sum>r\<leftarrow>residual. r ^ 2);
                 ss_tot = (\<Sum>a\<leftarrow>y. (a - np_mean y) ^ 2);
                 future_x = map (\<lambda>i. real (length y + i)) [0..<nat days]
             in
             case
               (if ss_tot > 0 then
                  (case py_div ss_res ss_tot of Inl e \<Rightarrow> Inl e | Inr q \<Rightarrow> Inr (fl_sub 1 q))
                else Inr 0)
             of
               Inl e \<Rightarrow> Inl e
             | Inr r2 \<Rightarrow> Inr (map (polyval coeffs) future_x, rmse, mape, r2))
        of
          Inl e \<Rightarrow> Inl e
        | Inr (preds, rmse, mape, r2) \<Rightarrow>
            if days < 0 then Inl ValueError
            else
              let last_date = c_date (last df);
                  future_dates = map (\<lambda>i. last_date + 1 + int i) [0..<nat days]
              in Inr
                \<lparr>lp_model_performance = \<lparr>RMSE = rmse, MAPE = mape, R2 = r2\<rparr>,
                 lp_future_predictions =
                   \<lparr>fp_dates = future_dates, fp_predictions = preds,
                    fp_current_price = last close\<rparr>,
                 lp_model_trained = True\<rparr>)"

section \<open>Sentiment: \<^verbatim>\<open>compute_sentiment\<close>\<close>

record onchain_metrics =
  om_active_addresses :: int
  om_transaction_count :: int
  om_nvt_ratio :: "real option"
  om_mvrv :: real

record sentiment_result =
  se_symbol :: string
  se_combined_score :: real
  se_combined_signal :: signal
  se_sentiment :: string
  se_sentiment_class :: string
  se_news_count :: int
  se_onchain_metrics :: onchain_metrics

text \<open>
  Line 282, \<^verbatim>\<open>round(float(quote_volume_24h) / max(tx_count, 1), 6)\<close> or \<^verbatim>\<open>'N/A'\<close>: the
  divisor is an \<^verbatim>\<open>int\<close>, converted to a float before the division. A result of \<open>None\<close> is
  the string \<^verbatim>\<open>'N/A'\<close>.
\<close>

definition nvt_ratio_of :: "int \<Rightarrow> real option \<Rightarrow> error + real option" where
  "nvt_ratio_of tx_count quote_volume_24h =
     (case quote_volume_24h of
        None \<Rightarrow> Inr None
      | Some qv \<Rightarrow>
          bind_err (float_of_int (max tx_count 1)) (\<lambda>d.
          bind_err (py_div qv d) (\<lambda>r.
          Inr (Some (py_round 6 r)))))"

text \<open>
  \<open>technical\<close> is the dictionary \<^verbatim>\<open>compute_technical_analysis\<close> returned, so the chain of
  \<^verbatim>\<open>.get\<close> calls finds the RSI value of the \<^verbatim>\<open>1d\<close> timeframe. The divisors \<^verbatim>\<open>100.0\<close> are
  not zero. The literal \<^verbatim>\<open>0.15\<close> is the double nearest to \<open>15 / 100\<close>. \<^verbatim>\<open>trade_count_24h or 0\<close>
  and the test \<^verbatim>\<open>quote_volume_24h is not None\<close> are on optional arguments.
\<close>

definition compute_sentiment ::
  "string \<Rightarrow> real \<Rightarrow> technical \<Rightarrow> int option \<Rightarrow> real option \<Rightarrow> real \<Rightarrow> error + sentiment_result"
where
  "compute_sentiment symbol price_change_percent technical trade_count_24h quote_volume_24h mvrv =
     (let rsi_val = rd_value (osc_rsi (tf_oscillators (tech_1d technical)));
          score = fl_add (fl_div price_change_percent 100) (fl_div (fl_sub 50 rsi_val) 100);
          combined_score = max (- 1) (min 1 score);
          labels =
            (if combined_score > round_double (15 / 100) then (BUY, ''POSITIVE'', ''BULLISH'')
             else if combined_score < - round_double (15 / 100)
               then (SELL, ''NEGATIVE'', ''BEARISH'')
             else (HOLD, ''NEUTRAL'', ''NEUTRAL''));
          tx_count = (case trade_count_24h of None \<Rightarrow> 0 | Some n \<Rightarrow> n);
          active_addresses = max 0 (tx_count div 120)
      in
      case nvt_ratio_of tx_count quote_volume_24h of
        Inl e \<Rightarrow> Inl e
      | Inr nvt_ratio \<Rightarrow>
          Inr
            \<lparr>se_symbol = symbol,
             se_combined_score = combined_score,
             se_combined_signal = fst labels,
             se_sentiment = snd (snd labels),
             se_sentiment_class = fst (snd labels),
             se_news_count = 0,
             se_onchain_metrics =
               \<lparr>om_active_addresses = active_addresses,
                om_transaction_count = tx_count,
                om_nvt_ratio = nvt_ratio,
                om_mvrv = mvrv\<rparr>\<rparr>)"

section \<open>The request handler: \<^verbatim>\<open>get_analysis\<close>\<close>

text \<open>
  A field of a ticker dictionary, as \<^verbatim>\<open>get_analysis\<close> reads it with
  \<^verbatim>\<open>float(t.get(k)) if t and t.get(k) else d\<close>: \<open>Absent\<close> when the key is missing or its value
  is falsy, \<open>Malformed\<close> when the value is truthy and the conversion raises, \<open>Parsed x\<close>
  when it converts to \<open>x\<close>.
\<close>

datatype 'a jfield = Absent | Malformed | Parsed 'a

record ticker =
  t_symbol :: string
  t_lastPrice :: "real jfield"
  t_priceChangePercent :: "real jfield"
  t_volume :: "real jfield"
  t_quoteVolume :: "real jfield"
  t_count :: "int jfield"

definition convert :: "'a jfield \<Rightarrow> error + 'a option" where
  "convert f = (case f of Absent \<Rightarrow> Inr None | Malformed \<Rightarrow> Inl ValueError | Parsed x \<Rightarrow> Inr (Some x))"

text \<open>What the one cache holds: the ticker list under one key, DataFrames under the others.\<close>

datatype payload = Tickers "ticker list" | Frame "candle list"

record final_recommendation =
  fr_signal :: signal
  fr_confidence :: int

text \<open>
  The report. Left out of the record: the \<^verbatim>\<open>timestamp\<close> of the clock, the \<^verbatim>\<open>reasoning\<close>
  sentence and the \<^verbatim>\<open>charts\<close> that \<^verbatim>\<open>build_charts\<close> reshapes from the fields below.
\<close>

record analysis_data =
  ad_symbol :: string
  ad_current_price :: real
  ad_price_change_percent :: real
  ad_volume_24h :: real
  ad_quote_volume_24h :: real
  ad_technical_analysis :: technical
  ad_lstm_prediction :: lstm_prediction
  ad_sentiment_analysis :: sentiment_result
  ad_final_recommendation :: final_recommendation

text \<open>
  A response is the JSON error object with its status code, or the report (status 200).
  The error text is the fixed message of line 444 or \<^verbatim>\<open>str(e)\<close> of a caught exception.
\<close>

datatype error_body = Message string | Exception_text error

datatype response = ErrorResponse error_body nat | Report analysis_data

text \<open>\<^verbatim>\<open>str.lower\<close> on the ASCII letters.\<close>

definition lower_char :: "char \<Rightarrow> char" where
  "lower_char c =
     (let n = (of_char c :: nat) in if 65 \<le> n \<and> n \<le> 90 then char_of (n + 32) else c)"

definition period_to_limit :: "string \<Rightarrow> nat" where
  "period_to_limit period =
     (if period = ''7d'' then 7 else if period = ''30d'' then 30
      else if period = ''90d'' then 90 else 90)"

text \<open>
  Lines 453 and 454: the mean close of the window (pandas, idealised as exact) and the
  MVRV ratio. The literal \<^verbatim>\<open>1e-12\<close> is the double nearest to \<open>1 / 10 ^ 12\<close>.
\<close>

definition compute_mvrv :: "real \<Rightarrow> candle list \<Rightarrow> error + real" where
  "compute_mvrv current_price df_period =
     (let avg_close =
            (if df_period \<noteq> [] then np_mean (map c_close df_period) else current_price)
      in case py_div current_price (max avg_close (round_double (1 / 10 ^ 12))) of
           Inl e \<Rightarrow> Inl e
         | Inr r \<Rightarrow> Inr (py_round 6 r))"

text \<open>
  Lines 446 to 475, after the DataFrame has passed the guard of line 443: any exception
  is a \<open>Inl\<close>, which the handler's \<^verbatim>\<open>except\<close> turns into a response.
\<close>

definition build_report ::
  "indicator_lib \<Rightarrow> string \<Rightarrow> nat \<Rightarrow> ticker option \<Rightarrow> real option \<Rightarrow> real \<Rightarrow> real \<Rightarrow> real \<Rightarrow>
   candle list \<Rightarrow> error + analysis_data"
where
  "build_report lib symbol limit ticker current_price0 price_change_percent volume_24h
     quote_volume_24h df =
     (let df_period = tail limit df;
          current_price =
            (case current_price0 of None \<Rightarrow> c_close (last df_period) | Some p \<Rightarrow> p)
      in
      bind_err (compute_technical_analysis lib df_period) (\<lambda>technical.
      bind_err (compute_lstm_like_prediction df_period 7) (\<lambda>lstm_prediction.
      bind_err (case ticker of None \<Rightarrow> Inr None | Some t \<Rightarrow> convert (t_count t)) (\<lambda>cnt.
      let trade_count_24h = (case cnt of None \<Rightarrow> 0 | Some n \<Rightarrow> n) in
      bind_err (compute_mvrv current_price df_period) (\<lambda>mvrv.
      bind_err (compute_sentiment symbol price_change_percent technical (Some trade_count_24h)
                  (Some quote_volume_24h) mvrv) (\<lambda>sentiment.
      let final_signal = tech_overall_signal technical;
          confidence =
            min 95 (max 55 (70 + (sum_buy (sig_summary (tf_signals (tech_1d technical)))
                                  - sum_sell (sig_summary (tf_signals (tech_1d technical)))) * 10))
      in Inr
        \<lparr>ad_symbol = symbol,
         ad_current_price = current_price,
         ad_price_change_percent = price_change_percent,
         ad_volume_24h = volume_24h,
         ad_quote_volume_24h = quote_volume_24h,
         ad_technical_analysis = technical,
         ad_lstm_prediction = lstm_prediction,
         ad_sentiment_analysis = sentiment,
         ad_final_recommendation =
           \<lparr>fr_signal = final_signal, fr_confidence = confidence\<rparr>\<rparr>))))))"

text \<open>
  Lines 435 to 440: the ticker of the symbol in the cached list and its four fields.
  The ticker list is \<^verbatim>\<open>get_cached_data(...) or []\<close>; a DataFrame under the ticker key
  makes the \<^verbatim>\<open>or\<close> raise.
\<close>

record ticker_view =
  tv_ticker :: "ticker option"
  tv_current_price :: "real option"
  tv_price_change_percent :: real
  tv_volume_24h :: real
  tv_quote_volume_24h :: real

definition read_ticker :: "string \<Rightarrow> payload option \<Rightarrow> error + ticker_view" where
  "read_ticker symbol cached =
     bind_err
       (case cached of
          None \<Rightarrow> Inr []
        | Some (Tickers ts) \<Rightarrow> Inr ts
        | Some (Frame f) \<Rightarrow> Inl ValueError) (\<lambda>tickers.
     let ticker = find (\<lambda>t. t_symbol t = symbol) tickers;
         field = (\<lambda>sel. case ticker of None \<Rightarrow> Inr None | Some t \<Rightarrow> convert (sel t))
     in
     bind_err (field t_lastPrice) (\<lambda>current_price.
     bind_err (field t_priceChangePercent) (\<lambda>pcp.
     bind_err (field t_volume) (\<lambda>vol.
     bind_err (field t_quoteVolume) (\<lambda>qvol.
     Inr
       \<lparr>tv_ticker = ticker,
        tv_current_price = current_price,
        tv_price_change_percent = (case pcp of None \<Rightarrow> 0 | Some x \<Rightarrow> x),
        tv_volume_24h = (case vol of None \<Rightarrow> 0 | Some x \<Rightarrow> x),
        tv_quote_volume_24h = (case qvol of None \<Rightarrow> 0 | Some x \<Rightarrow> x)\<rparr>)))))"

text \<open>
  Lines 442 to 484, from the lookup of the candles on: the guard of line 443, then the
  report or the response of the \<^verbatim>\<open>except\<close> branch. A ticker list under the candle key
  makes \<^verbatim>\<open>df.empty\<close> raise.
\<close>

definition respond ::
  "indicator_lib \<Rightarrow> string \<Rightarrow> nat \<Rightarrow> ticker_view \<Rightarrow> payload option \<Rightarrow> response"
where
  "respond lib symbol limit tv df =
     (case df of
        None \<Rightarrow> ErrorResponse (Message ''Unable to fetch historical data for analysis'') 500
      | Some (Tickers ts) \<Rightarrow> ErrorResponse (Exception_text TypeError) 500
      | Some (Frame rows) \<Rightarrow>
          (if rows = [] then
             ErrorResponse (Message ''Unable to fetch historical data for analysis'') 500
           else
             (case build_report lib symbol limit (tv_ticker tv) (tv_current_price tv)
                     (tv_price_change_percent tv) (tv_volume_24h tv) (tv_quote_volume_24h tv)
                     rows of
                Inl e \<Rightarrow> ErrorResponse (Exception_text e) 500
              | Inr analysis_data \<Rightarrow> Report analysis_data)))"

text \<open>
  The handler. \<open>fetch_binance_data\<close> and \<open>fetch_binance_klines\<close> are the two upstream
  fetch functions (network calls, parameters here); \<open>now1\<close> and \<open>now2\<close> are the clock
  readings of the two cache lookups. The handler returns its response and the state it
  leaves: what a cache lookup stored stays stored when a later step raises.
\<close>

definition get_analysis ::
  "indicator_lib \<Rightarrow> ('w, payload) fetch_func \<Rightarrow> (string \<Rightarrow> string \<Rightarrow> nat \<Rightarrow> ('w, payload) fetch_func) \<Rightarrow>
   real \<Rightarrow> real \<Rightarrow> string \<Rightarrow> string option \<Rightarrow> (string, payload) cache \<times> 'w \<Rightarrow>
   response \<times> (string, payload) cache \<times> 'w"
where
  "get_analysis lib fetch_binance_data fetch_binance_klines now1 now2 symbol period_arg s =
     (let period =
            map lower_char
              (case period_arg of None \<Rightarrow> ''90d'' | Some p \<Rightarrow> if p = [] then ''90d'' else p);
          limit = period_to_limit period;
          (cached, s1) = get_cached_data ''binance_tickers'' fetch_binance_data now1 s
      in
      (case read_ticker symbol cached of
         Inl e \<Rightarrow> (ErrorResponse (Exception_text e) 500, s1)
       | Inr tv \<Rightarrow>
           (let (df, s2) =
                  get_cached_data (''klines_'' @ symbol @ ''_1d_90'')
                    (fetch_binance_klines symbol ''1d'' 90) now2 s1
            in (respond lib symbol limit tv df, s2))))"

section \<open>The indicators as the spec defines them\<close>

text \<open>
  Modelled from the spec: the package \<^verbatim>\<open>ta\<close> (\<^verbatim>\<open>RSIIndicator\<close>, \<^verbatim>\<open>MACD\<close>, \<^verbatim>\<open>SMAIndicator\<close>,
  \<^verbatim>\<open>EMAIndicator\<close>, \<^verbatim>\<open>BollingerBands\<close>) is missing from the sources. The definitions below
  follow section 4.2 of the spec, over a close-price sequence \<open>c\<close>; an entry is \<open>None\<close>
  where the spec calls it undefined.

  SMA(w): the arithmetic mean of the trailing \<open>w\<close> closes, undefined for indices below
  \<open>w - 1\<close>.
\<close>

definition sma :: "nat \<Rightarrow> real list \<Rightarrow> real option list" where
  "sma w c =
     map (\<lambda>i. if i + 1 < w then None else Some (np_mean (take w (drop (i + 1 - w) c))))
       [0..<length c]"

text \<open>
  Modelled from the spec: EMA(w) is seeded by SMA(w) at index \<open>w - 1\<close> and continues with
  \<open>ema[i] = c[i] * k + ema[i-1] * (1 - k)\<close>, \<open>k = 2 / (w + 1)\<close>.
\<close>

fun ema_run :: "real \<Rightarrow> real \<Rightarrow> real list \<Rightarrow> real list" where
  "ema_run k prev [] = []"
| "ema_run k prev (x # xs) = (x * k + prev * (1 - k)) # ema_run k (x * k + prev * (1 - k)) xs"

definition ema :: "nat \<Rightarrow> real list \<Rightarrow> real option list" where
  "ema w c =
     (if w = 0 \<or> length c < w then replicate (length c) None
      else
        replicate (w - 1) None @
        map Some (np_mean (take w c) # ema_run (2 / (real w + 1)) (np_mean (take w c)) (drop w c)))"

text \<open>
  Modelled from the spec: \<open>macd = EMA(12) - EMA(26)\<close>, defined where both are; the signal
  line is EMA(9) of the defined part of \<open>macd\<close>.
\<close>

definition macd :: "real list \<Rightarrow> real option list" where
  "macd c =
     map (\<lambda>(a, b). case a of None \<Rightarrow> None
                    | Some x \<Rightarrow> (case b of None \<Rightarrow> None | Some y \<Rightarrow> Some (x - y)))
       (zip (ema 12 c) (ema 26 c))"

definition macd_signal :: "real list \<Rightarrow> real option list" where
  "macd_signal c =
     (let m = macd c;
          pre = takeWhile (\<lambda>x. x = None) m;
          defined = map the (dropWhile (\<lambda>x. x = None) m)
      in replicate (length pre) None @ ema 9 defined)"

text \<open>
  Modelled from the spec: Bollinger bands, middle = SMA(w), upper and lower = middle plus
  and minus \<open>k\<close> population standard deviations of the trailing \<open>w\<close> closes.
\<close>

definition pstdev :: "real list \<Rightarrow> real" where
  "pstdev xs = sqrt (np_mean (map (\<lambda>x. (x - np_mean xs) ^ 2) xs))"

definition bollinger :: "real \<Rightarrow> nat \<Rightarrow> nat \<Rightarrow> real list \<Rightarrow> real option list" where
  "bollinger side w k c =
     map (\<lambda>i. if i + 1 < w then None
              else Some (np_mean (take w (drop (i + 1 - w) c))
                         + side * real k * pstdev (take w (drop (i + 1 - w) c))))
       [0..<length c]"

text \<open>
  Modelled from the spec: RSI(w) by Wilder's smoothing. The changes are the differences of
  consecutive closes; a change contributes its positive part to the gains and its negative
  part to the losses. The first average is the mean of the first \<open>w\<close> values, every later
  one is \<open>(previous * (w - 1) + current) / w\<close>. \<open>RSI = 100 - 100 / (1 + RS)\<close> with
  \<open>RS = avgGain / avgLoss\<close>, and \<open>RSI = 100\<close> when \<open>avgLoss = 0\<close>. RSI is undefined for the
  first \<open>w\<close> closes.
\<close>

definition changes :: "real list \<Rightarrow> real list" where
  "changes c = map (\<lambda>(a, b). b - a) (zip c (tl c))"

fun wilder_run :: "nat \<Rightarrow> real \<Rightarrow> real list \<Rightarrow> real list" where
  "wilder_run w prev [] = []"
| "wilder_run w prev (x # xs) =
     ((prev * (real w - 1) + x) / real w) # wilder_run w ((prev * (real w - 1) + x) / real w) xs"

definition wilder :: "nat \<Rightarrow> real list \<Rightarrow> real list" where
  "wilder w xs =
     (if w = 0 \<or> length xs < w then []
      else np_mean (take w xs) # wilder_run w (np_mean (take w xs)) (drop w xs))"

definition rsi_value :: "real \<Rightarrow> real \<Rightarrow> real" where
  "rsi_value avg_gain avg_loss =
     (if avg_loss = 0 then 100 else 100 - 100 / (1 + avg_gain / avg_loss))"

definition rsi :: "nat \<Rightarrow> real list \<Rightarrow> real option list" where
  "rsi w c =
     (let avg_gain = wilder w (map (\<lambda>d. max d 0) (changes c));
          avg_loss = wilder w (map (\<lambda>d. max (- d) 0) (changes c))
      in replicate (length c - length avg_gain) None @
         map (\<lambda>(g, l). Some (rsi_value g l)) (zip avg_gain avg_loss))"

definition spec_indicators :: indicator_lib where
  "spec_indicators =
     \<lparr>lib_rsi = rsi, lib_macd = macd, lib_macd_signal = macd_signal,
      lib_sma = sma, lib_ema = ema,
      lib_bb_hband = bollinger 1, lib_bb_mavg = bollinger 0, lib_bb_lband = bollinger (- 1)\<rparr>"

section \<open>The majority rule in the spec's words, and an example window\<close>

text \<open>
  The rule of the spec for a vote: a signal with strictly more votes than each of the other
  two is the overall signal, and one vote each gives \<open>HOLD\<close>. \<open>count_list votes s\<close> is
  the number of votes for \<open>s\<close>.
\<close>

definition majority_rule :: "signal list \<Rightarrow> signal \<Rightarrow> bool" where
  "majority_rule votes overall =
     ((count_list votes SELL < count_list votes BUY \<and> count_list votes HOLD < count_list votes BUY
         \<longrightarrow> overall = BUY)
    \<and> (count_list votes BUY < count_list votes SELL \<and> count_list votes HOLD < count_list votes SELL
         \<longrightarrow> overall = SELL)
    \<and> (count_list votes BUY < count_list votes HOLD \<and> count_list votes SELL < count_list votes HOLD
         \<longrightarrow> overall = HOLD)
    \<and> (count_list votes BUY = 1 \<and> count_list votes SELL = 1 \<and> count_list votes HOLD = 1
         \<longrightarrow> overall = HOLD))"

text \<open>
  A candle of day \<open>i\<close> with all four prices \<open>p\<close>, and what the analysis returns for the
  window of one such candle at price 100: every indicator is still undefined, so the
  fallbacks apply.
\<close>

definition day_candle :: "int \<Rightarrow> real \<Rightarrow> candle" where
  "day_candle i p = \<lparr>c_timestamp = 86400000 * i, c_date = i, c_open = p, c_high = p,
                     c_low = p, c_close = p, c_volume = 1\<rparr>"

definition example_timeframe :: timeframe where
  "example_timeframe =
     \<lparr>tf_oscillators =
        \<lparr>osc_rsi = \<lparr>rd_value = 50, rd_signal = HOLD\<rparr>,
         osc_macd = \<lparr>rd_value = 0, rd_signal = HOLD\<rparr>\<rparr>,
      tf_moving_averages =
        \<lparr>ma_sma_20 = \<lparr>rd_value = 100, rd_signal = SELL\<rparr>,
         ma_sma_50 = \<lparr>rd_value = 100, rd_signal = HOLD\<rparr>,
         ma_ema_12 = \<lparr>rd_value = 100, rd_signal = SELL\<rparr>,
         ma_ema_26 = \<lparr>rd_value = 100, rd_signal = SELL\<rparr>\<rparr>,
      tf_signals =
        \<lparr>sig_overall_signal = HOLD,
         sig_summary = \<lparr>sum_buy = 0, sum_sell = 0, sum_hold = 3\<rparr>,
         sig_details = \<lparr>det_rsi = HOLD, det_macd = HOLD, det_moving_averages = HOLD\<rparr>\<rparr>,
      tf_series =
        \<lparr>ser_rsi = [50], ser_macd = [0], ser_macd_signal = [0],
         ser_sma_20 = [Some 100], ser_sma_50 = [Some 100],
         ser_bb_upper = [Some 100], ser_bb_middle = [Some 100], ser_bb_lower = [Some 100]\<rparr>\<rparr>"

definition example_technical :: technical where
  "example_technical =
     \<lparr>tech_overall_signal = HOLD, tech_1d = example_timeframe,
      tech_1w = example_timeframe, tech_1m = example_timeframe\<rparr>"

section \<open>Properties of the cache\<close>

text \<open>
  C1. While an entry is at most \<open>CACHE_DURATION = 300\<close> seconds old, \<^verbatim>\<open>get_cached_data\<close>
  returns the stored value and leaves cache and world as they were, whatever the fetch
  function is: the fetch function is not called. Once the entry has expired and the fetch
  function raises, the stored value is returned and both dictionaries are unchanged. The
  third part says where such an entry comes from: a call that is not served from the
  cache and whose fetch succeeds stores the fetched value with the time of the call.
\<close>

theorem cache_hit_and_stale_fallback:
  "(data_cache c key = Some v \<and> cache_timestamp c key = Some ts \<and> now - ts < 300
      \<longrightarrow> get_cached_data key fetch_func now (c, w) = (v, c, w))
   \<and> (data_cache c key = Some v \<and> cache_timestamp c key = Some ts \<and> \<not> now - ts < 300
        \<and> fst (fetch_func w) = Inl e
      \<longrightarrow> get_cached_data key fetch_func now (c, w) = (v, c, snd (fetch_func w)))
   \<and> (\<not> (\<exists>v ts. data_cache c key = Some v \<and> cache_timestamp c key = Some ts \<and> now - ts < 300)
        \<and> fetch_func w = (Inr d, w')
      \<longrightarrow> (\<exists>c'. get_cached_data key fetch_func now (c, w) = (d, c', w')
               \<and> data_cache c' key = Some d \<and> cache_timestamp c' key = Some now))"
  by (cases "fetch_func w")
     (auto simp: get_cached_data_def fetch_fresh_def CACHE_DURATION_def
           split: option.splits sum.splits prod.splits)

text \<open>
  The world of the witness counts the calls of the fetch function. An entry stored at
  time 1000 is served at time 1100 with the counter still 0; at time 1400 a raising fetch
  function is called once and the entry comes back unchanged.
\<close>

theorem cache_hit_and_stale_fallback_witness:
  "get_cached_data ''k'' (\<lambda>n::nat. (Inr (Some (7::nat)), Suc n)) 1100
       (\<lparr>data_cache = [''k'' \<mapsto> Some 5], cache_timestamp = [''k'' \<mapsto> 1000]\<rparr>, 0)
     = (Some 5, \<lparr>data_cache = [''k'' \<mapsto> Some 5], cache_timestamp = [''k'' \<mapsto> 1000]\<rparr>, 0)
   \<and> get_cached_data ''k'' (\<lambda>n::nat. (Inl UpstreamError, Suc n)) 1400
       (\<lparr>data_cache = [''k'' \<mapsto> Some (5::nat)], cache_timestamp = [''k'' \<mapsto> 1000]\<rparr>, 0)
     = (Some 5, \<lparr>data_cache = [''k'' \<mapsto> Some 5], cache_timestamp = [''k'' \<mapsto> 1000]\<rparr>, 1)"
  using
    cache_hit_and_stale_fallback [of "\<lparr>data_cache = [''k'' \<mapsto> Some (5::nat)], cache_timestamp = [''k'' \<mapsto> 1000]\<rparr>"
      "''k''" "Some 5" 1000 1100 "\<lambda>n::nat. (Inr (Some (7::nat)), Suc n)" 0 UpstreamError "Some 7" 1]
    cache_hit_and_stale_fallback [of "\<lparr>data_cache = [''k'' \<mapsto> Some (5::nat)], cache_timestamp = [''k'' \<mapsto> 1000]\<rparr>"
      "''k''" "Some 5" 1000 1400 "\<lambda>n::nat. (Inl UpstreamError, Suc n)" 0 UpstreamError "Some 7" 1]
  by simp

text \<open>
  C2, as the source has it. The claim reads: the call returns \<^verbatim>\<open>None\<close> exactly when the
  fetch function fails and no entry is stored. A fetch function that returns \<^verbatim>\<open>None\<close>
  without raising has its \<^verbatim>\<open>None\<close> stored and returned, so the equivalence needs the
  invariant of the spec's data model, "a present entry's value is never null": the entry
  of the key is not \<^verbatim>\<open>None\<close> and the fetch function does not return \<^verbatim>\<open>None\<close>. Under it
  the call returns \<^verbatim>\<open>None\<close> exactly when the fetch function raises and the key has no
  entry; and whenever the key has an entry and the fetch function raises, the entry's
  value is what the caller gets.
\<close>

theorem unavailable_iff_failed_and_never_stored:
  "data_cache c key \<noteq> Some None \<and> fst (fetch_func w) \<noteq> Inr None \<longrightarrow>
     (fst (get_cached_data key fetch_func now (c, w)) = None
        \<longleftrightarrow> (\<exists>e. fst (fetch_func w) = Inl e) \<and> data_cache c key = None)
     \<and> (\<forall>old e. data_cache c key = Some old \<and> fst (fetch_func w) = Inl e
           \<longrightarrow> fst (get_cached_data key fetch_func now (c, w)) = old)"
  by (cases "fetch_func w")
     (auto simp: get_cached_data_def fetch_fresh_def CACHE_DURATION_def
           split: option.splits sum.splits prod.splits)

theorem unavailable_iff_failed_and_never_stored_witness:
  "fst (get_cached_data ''k'' (\<lambda>n::nat. (Inl UpstreamError :: error + nat option, Suc n)) 1400
          (\<lparr>data_cache = Map.empty, cache_timestamp = Map.empty\<rparr>, 0)) = None
   \<and> fst (get_cached_data ''k'' (\<lambda>n::nat. (Inl UpstreamError, Suc n)) 1400
          (\<lparr>data_cache = [''k'' \<mapsto> Some (5::nat)], cache_timestamp = [''k'' \<mapsto> 1000]\<rparr>, 0)) = Some 5"
  using
    unavailable_iff_failed_and_never_stored [of "\<lparr>data_cache = Map.empty, cache_timestamp = Map.empty\<rparr>"
      "''k''" "\<lambda>n::nat. (Inl UpstreamError :: error + nat option, Suc n)" 0 1400]
    unavailable_iff_failed_and_never_stored [of "\<lparr>data_cache = [''k'' \<mapsto> Some (5::nat)], cache_timestamp = [''k'' \<mapsto> 1000]\<rparr>"
      "''k''" "\<lambda>n::nat. (Inl UpstreamError, Suc n)" 0 1400]
  by simp

text \<open>
  The claim as it is written fails on a fetch function that returns \<^verbatim>\<open>None\<close>: on the empty
  cache the call returns \<^verbatim>\<open>None\<close> although the fetch function did not fail.
\<close>

theorem unavailable_iff_counterexample:
  "\<not> (fst (get_cached_data ''k'' (\<lambda>n::nat. (Inr (None :: nat option), Suc n)) 1400
            (\<lparr>data_cache = Map.empty, cache_timestamp = Map.empty\<rparr>, 0)) = None
        \<longleftrightarrow> (\<exists>e. fst ((\<lambda>n::nat. (Inr (None :: nat option), Suc n)) 0) = Inl e)
            \<and> data_cache \<lparr>data_cache = Map.empty :: string \<rightharpoonup> nat option,
                            cache_timestamp = Map.empty\<rparr> ''k'' = None)"
  by (simp add: get_cached_data_def fetch_fresh_def)

section \<open>Properties of the RSI of the spec\<close>

lemma np_mean_nonneg: "(\<forall>x\<in>set xs. 0 \<le> x) \<Longrightarrow> 0 \<le> np_mean xs"
  by (simp add: np_mean_def sum_list_nonneg)

lemma np_mean_zero:
  assumes "\<forall>x\<in>set xs. x = 0" shows "np_mean xs = 0"
proof -
  have "sum_list xs = 0" using assms by (induction xs) simp_all
  then show ?thesis by (simp add: np_mean_def)
qed

lemma wilder_run_nonneg:
  "0 < w \<Longrightarrow> 0 \<le> prev \<Longrightarrow> (\<forall>x\<in>set xs. 0 \<le> x) \<Longrightarrow> \<forall>a\<in>set (wilder_run w prev xs). 0 \<le> a"
proof (induction xs arbitrary: prev)
  case Nil
  then show ?case by simp
next
  case (Cons x xs)
  have "0 \<le> prev * (real w - 1)" using Cons.prems by (simp add: mult_nonneg_nonneg)
  then have step: "0 \<le> (prev * (real w - 1) + x) / real w" using Cons.prems by simp
  from Cons.IH [OF Cons.prems(1) step] Cons.prems(3) step show ?case by simp
qed

lemma wilder_run_zero:
  "0 < w \<Longrightarrow> (\<forall>x\<in>set xs. x = 0) \<Longrightarrow> \<forall>a\<in>set (wilder_run w 0 xs). a = 0"
  by (induction xs) simp_all

lemma length_wilder_run: "length (wilder_run w prev xs) = length xs"
  by (induction xs arbitrary: prev) simp_all

lemma length_wilder:
  "length (wilder w xs) = (if w = 0 \<or> length xs < w then 0 else length xs - w + 1)"
  by (simp add: wilder_def length_wilder_run)

lemma wilder_nonneg:
  assumes "\<forall>x\<in>set xs. 0 \<le> x" shows "\<forall>a\<in>set (wilder w xs). 0 \<le> a"
proof (cases "w = 0 \<or> length xs < w")
  case True
  then show ?thesis by (simp add: wilder_def)
next
  case False
  have t: "\<forall>x\<in>set (take w xs). 0 \<le> x" using assms by (meson in_set_takeD)
  have d: "\<forall>x\<in>set (drop w xs). 0 \<le> x" using assms by (meson in_set_dropD)
  have m: "0 \<le> np_mean (take w xs)" using t by (rule np_mean_nonneg)
  from False have "0 < w" by simp
  from wilder_run_nonneg [OF this m d] m False show ?thesis by (simp add: wilder_def)
qed

lemma wilder_zero:
  assumes "\<forall>x\<in>set xs. x = 0" shows "\<forall>a\<in>set (wilder w xs). a = 0"
proof (cases "w = 0 \<or> length xs < w")
  case True
  then show ?thesis by (simp add: wilder_def)
next
  case False
  have t: "\<forall>x\<in>set (take w xs). x = 0" using assms by (meson in_set_takeD)
  have d: "\<forall>x\<in>set (drop w xs). x = 0" using assms by (meson in_set_dropD)
  have m: "np_mean (take w xs) = 0" using t by (rule np_mean_zero)
  from False have "0 < w" by simp
  from wilder_run_zero [OF this d] m False show ?thesis by (simp add: wilder_def)
qed

lemma rsi_value_range: "0 \<le> g \<Longrightarrow> 0 \<le> l \<Longrightarrow> 0 \<le> rsi_value g l \<and> rsi_value g l \<le> 100"
proof (cases "l = 0")
  case True
  then show ?thesis by (simp add: rsi_value_def)
next
  case False
  assume g: "0 \<le> g" and l: "0 \<le> l"
  with False have "0 \<le> g / l" by simp
  then have one: "1 \<le> 1 + g / l" by simp
  then have "100 / (1 + g / l) \<le> 100" by (simp add: divide_le_eq)
  moreover have "0 \<le> 100 / (1 + g / l)" using one by simp
  ultimately show ?thesis using False by (simp add: rsi_value_def)
qed

lemma length_changes: "length (changes c) = length c - 1"
  by (simp add: changes_def)

lemma rsi_entries:
  assumes "Some v \<in> set (rsi w c)"
  shows "0 \<le> v \<and> v \<le> 100"
proof -
  let ?g = "wilder w (map (\<lambda>d. max d 0) (changes c))"
  let ?l = "wilder w (map (\<lambda>d. max (- d) 0) (changes c))"
  from assms obtain g l where gl: "(g, l) \<in> set (zip ?g ?l)" and v: "v = rsi_value g l"
    by (auto simp: rsi_def Let_def)
  have "g \<in> set ?g" using gl by (rule set_zip_leftD)
  moreover have "\<forall>a\<in>set ?g. 0 \<le> a" by (rule wilder_nonneg) simp
  ultimately have g0: "0 \<le> g" by blast
  have "l \<in> set ?l" using gl by (rule set_zip_rightD)
  moreover have "\<forall>a\<in>set ?l. 0 \<le> a" by (rule wilder_nonneg) simp
  ultimately have l0: "0 \<le> l" by blast
  from rsi_value_range [OF g0 l0] v show ?thesis by simp
qed

lemma rsi_last_defined:
  assumes "0 < w" and "w < length c"
  shows "rsi w c \<noteq> [] \<and> (\<exists>v. last (rsi w c) = Some v)"
proof -
  let ?g = "wilder w (map (\<lambda>d. max d 0) (changes c))"
  let ?l = "wilder w (map (\<lambda>d. max (- d) 0) (changes c))"
  have lg: "length ?g = length c - w"
    using assms unfolding length_wilder length_map length_changes by (simp, arith)
  have ll: "length ?l = length c - w"
    using assms unfolding length_wilder length_map length_changes by (simp, arith)
  have ne: "zip ?g ?l \<noteq> []" using lg ll assms by (metis length_0_conv length_zip min.idem zero_less_diff less_numeral_extra(3))
  then show ?thesis by (simp add: rsi_def Let_def last_map case_prod_beta)
qed

lemma rsi_no_loss:
  assumes "\<forall>d\<in>set (changes c). 0 \<le> d" and "Some v \<in> set (rsi w c)"
  shows "v = 100"
proof -
  let ?g = "wilder w (map (\<lambda>d. max d 0) (changes c))"
  let ?l = "wilder w (map (\<lambda>d. max (- d) 0) (changes c))"
  from assms(2) obtain g l where gl: "(g, l) \<in> set (zip ?g ?l)" and v: "v = rsi_value g l"
    by (auto simp: rsi_def Let_def)
  have "l \<in> set ?l" using gl by (rule set_zip_rightD)
  moreover have "\<forall>a\<in>set ?l. a = 0" by (rule wilder_zero) (use assms(1) in auto)
  ultimately have "l = 0" by blast
  with v show ?thesis by (simp add: rsi_value_def)
qed

text \<open>
  C8, for the RSI of the spec's recurrence with any window \<open>w\<close> (the source passes 14).
  With more than \<open>w\<close> closes the last RSI value is defined; every defined value lies
  between 0 and 100; and the value is 100 when no change of the whole close sequence is a
  loss. The scope of the last part is the whole sequence handed to the indicator: Wilder's
  averages never forget a change, so a loss before the last \<open>w\<close> changes keeps the
  average loss positive.
\<close>

theorem rsi_range_and_no_loss:
  "0 < w \<and> w < length c \<longrightarrow>
     (\<exists>v. last (rsi w c) = Some v \<and> 0 \<le> v \<and> v \<le> 100
          \<and> ((\<forall>d\<in>set (changes c). 0 \<le> d) \<longrightarrow> v = 100))
     \<and> (\<forall>v. Some v \<in> set (rsi w c) \<longrightarrow> 0 \<le> v \<and> v \<le> 100)"
proof (intro impI conjI allI)
  assume h: "0 < w \<and> w < length c"
  then obtain v where ne: "rsi w c \<noteq> []" and v: "last (rsi w c) = Some v"
    using rsi_last_defined [of w c] by blast
  from ne v have mem: "Some v \<in> set (rsi w c)" by (metis last_in_set)
  from rsi_entries [OF mem] rsi_no_loss [OF _ mem] v
  show "\<exists>v. last (rsi w c) = Some v \<and> 0 \<le> v \<and> v \<le> 100
          \<and> ((\<forall>d\<in>set (changes c). 0 \<le> d) \<longrightarrow> v = 100)"
    by blast
next
  fix v assume "Some v \<in> set (rsi w c)"
  then show "0 \<le> v" by (simp add: rsi_entries)
next
  fix v assume "Some v \<in> set (rsi w c)"
  then show "v \<le> 100" by (simp add: rsi_entries)
qed

theorem rsi_range_and_no_loss_witness:
  "(0::nat) < 14 \<and> 14 < length [1, 2, 3, 4, 5, 6, 7, 8, 9, 10, 11, 12, 13, 14, 15, 16 :: real]
   \<and> last (rsi 14 [1, 2, 3, 4, 5, 6, 7, 8, 9, 10, 11, 12, 13, 14, 15, 16]) = Some 100"
  using rsi_range_and_no_loss [of 14 "[1, 2, 3, 4, 5, 6, 7, 8, 9, 10, 11, 12, 13, 14, 15, 16]"]
  by (simp add: changes_def)

text \<open>
  The claim with the window read as the last 14 changes fails: after one loss and fourteen
  gains the last 14 changes are all gains, and the RSI is \<open>4575 / 49\<close>, about 93.4.
\<close>

theorem rsi_trailing_gains_counterexample:
  "\<not> (\<forall>c. 14 < length c \<and> (\<forall>d\<in>set (tail 14 (changes c)). 0 < d)
           \<longrightarrow> last (rsi 14 c) = Some 100)"
proof
  assume a: "\<forall>c. 14 < length c \<and> (\<forall>d\<in>set (tail 14 (changes c)). 0 < d)
               \<longrightarrow> last (rsi 14 c) = Some 100"
  have gains: "\<forall>d\<in>set (tail 14 (changes [2, 1, 2, 3, 4, 5, 6, 7, 8, 9, 10, 11, 12, 13, 14, 15 :: real])). 0 < d"
    by (simp add: tail_def changes_def)
  have val: "last (rsi 14 [2, 1, 2, 3, 4, 5, 6, 7, 8, 9, 10, 11, 12, 13, 14, 15]) = Some (4575 / 49)"
    by (simp add: rsi_def wilder_def changes_def np_mean_def rsi_value_def)
  from a gains have "last (rsi 14 [2, 1, 2, 3, 4, 5, 6, 7, 8, 9, 10, 11, 12, 13, 14, 15]) = Some 100"
    by simp
  with val show False by simp
qed

section \<open>Properties of the technical analysis\<close>

lemmas eval_defs = compute_for_window_def spec_indicators_def day_candle_def rsi_def wilder_def
  changes_def np_mean_def rsi_value_def sma_def ema_def macd_def macd_signal_def bollinger_def
  last_or_def count_signal_def decide_def Let_def

lemma compute_for_window_empty: "compute_for_window lib [] = Inl KeyError"
  by (simp only: compute_for_window_def if_True simp_thms)

lemma compute_for_window_Inr_nonempty:
  assumes "compute_for_window lib df_window = Inr tf" shows "df_window \<noteq> []"
proof
  assume "df_window = []"
  with assms compute_for_window_empty [of lib] show False by simp
qed

lemma compute_for_window_total:
  "df_window \<noteq> [] \<Longrightarrow> \<exists>tf. compute_for_window lib df_window = Inr tf"
  by (simp only: compute_for_window_def if_False Let_def simp_thms sum.inject)

lemmas window_selects =
  timeframe.select_convs signals.select_convs details.select_convs summary.select_convs sum.sel

lemma window_fields:
  assumes "df_window \<noteq> []"
  shows "sig_overall_signal (tf_signals (projr (compute_for_window lib df_window))) =
           decide (sum_buy (sig_summary (tf_signals (projr (compute_for_window lib df_window)))))
                  (sum_sell (sig_summary (tf_signals (projr (compute_for_window lib df_window)))))
                  (sum_hold (sig_summary (tf_signals (projr (compute_for_window lib df_window)))))"
    and "sum_buy (sig_summary (tf_signals (projr (compute_for_window lib df_window)))) =
           count_signal BUY
             [det_rsi (sig_details (tf_signals (projr (compute_for_window lib df_window)))),
              det_macd (sig_details (tf_signals (projr (compute_for_window lib df_window)))),
              det_moving_averages (sig_details (tf_signals (projr (compute_for_window lib df_window))))]"
    and "sum_sell (sig_summary (tf_signals (projr (compute_for_window lib df_window)))) =
           count_signal SELL
             [det_rsi (sig_details (tf_signals (projr (compute_for_window lib df_window)))),
              det_macd (sig_details (tf_signals (projr (compute_for_window lib df_window)))),
              det_moving_averages (sig_details (tf_signals (projr (compute_for_window lib df_window))))]"
    and "sum_hold (sig_summary (tf_signals (projr (compute_for_window lib df_window)))) =
           count_signal HOLD
             [det_rsi (sig_details (tf_signals (projr (compute_for_window lib df_window)))),
              det_macd (sig_details (tf_signals (projr (compute_for_window lib df_window)))),
              det_moving_averages (sig_details (tf_signals (projr (compute_for_window lib df_window))))]"
  using assms
  by (simp_all only: compute_for_window_def if_False Let_def window_selects)

lemma decide_majority:
  "majority_rule [a, b, c]
     (decide (count_signal BUY [a, b, c]) (count_signal SELL [a, b, c]) (count_signal HOLD [a, b, c]))"
  by (cases a; cases b; cases c; simp add: majority_rule_def decide_def count_signal_def)

lemma window_vote:
  assumes "compute_for_window lib df_window = Inr tf"
  shows "majority_rule
           [det_rsi (sig_details (tf_signals tf)), det_macd (sig_details (tf_signals tf)),
            det_moving_averages (sig_details (tf_signals tf))]
           (sig_overall_signal (tf_signals tf))"
proof -
  have ne: "df_window \<noteq> []" using assms by (rule compute_for_window_Inr_nonempty)
  have p: "projr (compute_for_window lib df_window) = tf" using assms by simp
  from window_fields [OF ne, of lib] show ?thesis
    unfolding p by (simp only: decide_majority)
qed

lemma tail_nonempty: "xs \<noteq> [] \<Longrightarrow> 0 < n \<Longrightarrow> tail n xs \<noteq> []"
  by (cases xs) (auto simp: tail_def)

lemma technical_cases:
  "(df = [] \<and> compute_technical_analysis lib df = Inl KeyError)
   \<or> (df \<noteq> [] \<and> (\<exists>tf_d tf_w.
         compute_for_window lib (tail 90 df) = Inr tf_d
       \<and> compute_for_window lib (tail 30 df) = Inr tf_w
       \<and> compute_technical_analysis lib df = Inr
           \<lparr>tech_overall_signal =
              decide (count_signal BUY [sig_overall_signal (tf_signals tf_d),
                        sig_overall_signal (tf_signals tf_w), sig_overall_signal (tf_signals tf_d)])
                     (count_signal SELL [sig_overall_signal (tf_signals tf_d),
                        sig_overall_signal (tf_signals tf_w), sig_overall_signal (tf_signals tf_d)])
                     (count_signal HOLD [sig_overall_signal (tf_signals tf_d),
                        sig_overall_signal (tf_signals tf_w), sig_overall_signal (tf_signals tf_d)]),
            tech_1d = tf_d, tech_1w = tf_w, tech_1m = tf_d\<rparr>))"
proof (cases "df = []")
  case True
  then show ?thesis
    by (simp add: compute_technical_analysis_def tail_def compute_for_window_empty)
next
  case False
  obtain tf_d where d: "compute_for_window lib (tail 90 df) = Inr tf_d"
    using compute_for_window_total [OF tail_nonempty [OF False, of 90], of lib] by auto
  obtain tf_w where w: "compute_for_window lib (tail 30 df) = Inr tf_w"
    using compute_for_window_total [OF tail_nonempty [OF False, of 30], of lib] by auto
  show ?thesis using False d w
    by (simp add: compute_technical_analysis_def Let_def)
qed

lemma window_example:
  "compute_for_window spec_indicators [day_candle 0 100] = Inr example_timeframe"
  by (simp add: eval_defs example_timeframe_def tail_def ffill_def bfill_def fillna_const_def
        fillna_series_def)

lemma technical_example:
  "compute_technical_analysis spec_indicators [day_candle 0 100] = Inr example_technical"
  by (simp add: compute_technical_analysis_def tail_def window_example example_timeframe_def
        example_technical_def count_signal_def decide_def)

text \<open>
  C3. Whatever the indicator library computes: the overall signal of a timeframe obeys the
  majority rule over its RSI, MACD and moving-average signals, and the overall signal of
  the report obeys it over the overall signals of the three timeframes. The last part is
  the vote itself on every list of three signals: the counts of lines 159 to 161 and the
  decision of lines 163 to 168.
\<close>

theorem majority_vote:
  "(compute_for_window lib df_window = Inr tf \<longrightarrow>
      majority_rule
        [det_rsi (sig_details (tf_signals tf)), det_macd (sig_details (tf_signals tf)),
         det_moving_averages (sig_details (tf_signals tf))]
        (sig_overall_signal (tf_signals tf)))
   \<and> (compute_technical_analysis lib df = Inr t \<longrightarrow>
      majority_rule
        [sig_overall_signal (tf_signals (tech_1d t)), sig_overall_signal (tf_signals (tech_1w t)),
         sig_overall_signal (tf_signals (tech_1m t))]
        (tech_overall_signal t))
   \<and> majority_rule [a, b, c]
        (decide (count_signal BUY [a, b, c]) (count_signal SELL [a, b, c])
           (count_signal HOLD [a, b, c]))"
proof (intro conjI impI)
  assume "compute_for_window lib df_window = Inr tf"
  then show "majority_rule
        [det_rsi (sig_details (tf_signals tf)), det_macd (sig_details (tf_signals tf)),
         det_moving_averages (sig_details (tf_signals tf))]
        (sig_overall_signal (tf_signals tf))" by (rule window_vote)
next
  assume a: "compute_technical_analysis lib df = Inr t"
  from technical_cases [of df lib] a obtain tf_d tf_w where
    "t = \<lparr>tech_overall_signal =
              decide (count_signal BUY [sig_overall_signal (tf_signals tf_d),
                        sig_overall_signal (tf_signals tf_w), sig_overall_signal (tf_signals tf_d)])
                     (count_signal SELL [sig_overall_signal (tf_signals tf_d),
                        sig_overall_signal (tf_signals tf_w), sig_overall_signal (tf_signals tf_d)])
                     (count_signal HOLD [sig_overall_signal (tf_signals tf_d),
                        sig_overall_signal (tf_signals tf_w), sig_overall_signal (tf_signals tf_d)]),
            tech_1d = tf_d, tech_1w = tf_w, tech_1m = tf_d\<rparr>"
    by auto
  then show "majority_rule
        [sig_overall_signal (tf_signals (tech_1d t)), sig_overall_signal (tf_signals (tech_1w t)),
         sig_overall_signal (tf_signals (tech_1m t))]
        (tech_overall_signal t)"
    by (simp add: decide_majority)
next
  show "majority_rule [a, b, c]
        (decide (count_signal BUY [a, b, c]) (count_signal SELL [a, b, c])
           (count_signal HOLD [a, b, c]))"
    by (rule decide_majority)
qed

theorem majority_vote_witness:
  "compute_for_window spec_indicators [day_candle 0 100] = Inr example_timeframe
   \<and> compute_technical_analysis spec_indicators [day_candle 0 100] = Inr example_technical
   \<and> count_list [det_rsi (sig_details (tf_signals example_timeframe)),
                  det_macd (sig_details (tf_signals example_timeframe)),
                  det_moving_averages (sig_details (tf_signals example_timeframe))] HOLD = 3
   \<and> sig_overall_signal (tf_signals example_timeframe) = HOLD
   \<and> tech_overall_signal example_technical = HOLD
   \<and> decide (count_signal BUY [BUY, SELL, HOLD]) (count_signal SELL [BUY, SELL, HOLD])
        (count_signal HOLD [BUY, SELL, HOLD]) = HOLD
   \<and> decide (count_signal BUY [BUY, SELL, BUY]) (count_signal SELL [BUY, SELL, BUY])
        (count_signal HOLD [BUY, SELL, BUY]) = BUY"
  using majority_vote [of spec_indicators "[day_candle 0 100]" example_timeframe
      "[day_candle 0 100]" example_technical BUY SELL HOLD]
    majority_vote [of spec_indicators "[day_candle 0 100]" example_timeframe
      "[day_candle 0 100]" example_technical BUY SELL BUY]
    window_example technical_example
  by (simp add: majority_rule_def example_timeframe_def example_technical_def)

text \<open>
  C7. The \<^verbatim>\<open>1d\<close> and the \<^verbatim>\<open>1m\<close> entry of every result of \<^verbatim>\<open>compute_technical_analysis\<close>
  are equal as a whole (oscillators, moving averages, signals and series), and a window
  with at least one candle has a result.
\<close>

theorem timeframes_1d_1m_identical:
  "(compute_technical_analysis lib df = Inr t \<longrightarrow> tech_1d t = tech_1m t)
   \<and> (df \<noteq> [] \<longrightarrow> (\<exists>t. compute_technical_analysis lib df = Inr t \<and> tech_1d t = tech_1m t))"
  using technical_cases [of df lib] by auto


theorem timeframes_1d_1m_identical_witness:
  "[day_candle 0 100] \<noteq> []
   \<and> compute_technical_analysis spec_indicators [day_candle 0 100] = Inr example_technical
   \<and> tech_1d example_technical = tech_1m example_technical"
  using timeframes_1d_1m_identical [of spec_indicators "[day_candle 0 100]" example_technical]
    technical_example
  by simp

section \<open>Properties of the forecast\<close>

lemma py_div_nonzero: "b \<noteq> 0 \<Longrightarrow> py_div a b = Inr (fl_div a b)"
  by (simp add: py_div_def)

lemma length_tail: "length (tail n xs) = min n (length xs)"
  by (simp add: tail_def)


lemma forecast_short:
  assumes "df \<noteq> []" and "0 \<le> days" and "length (tail 60 (map c_close df)) < 10"
  shows "compute_lstm_like_prediction df days = Inr
           \<lparr>lp_model_performance = \<lparr>RMSE = 0, MAPE = 0, R2 = 0\<rparr>,
            lp_future_predictions =
              \<lparr>fp_dates = map (\<lambda>i. c_date (last df) + 1 + int i) [0..<nat days],
               fp_predictions = replicate (nat days) (c_close (last df)),
               fp_current_price = c_close (last df)\<rparr>,
            lp_model_trained = True\<rparr>"
  using assms by (simp add: compute_lstm_like_prediction_def Let_def last_map)

lemma forecast_long:
  assumes "df \<noteq> []" and "0 \<le> days" and "\<not> length (tail 60 (map c_close df)) < 10"
  shows "\<exists>r. compute_lstm_like_prediction df days = Inr r
             \<and> length (fp_predictions (lp_future_predictions r)) = nat days"
  using assms
  by (simp add: compute_lstm_like_prediction_def Let_def py_div_def)




section \<open>Properties of the float arithmetic\<close>

lemma binade_numeral:
  "binade (numeral k) m e =
     (if 2 \<le> m then binade (pred_numeral k) (m / 2) (e + 1)
      else if m < 1 then binade (pred_numeral k) (m * 2) (e - 1)
      else e)"
  by (simp add: numeral_eq_Suc)

lemmas double_eval = round_double_def binade_numeral pow2_def round_half_even_def Let_def

lemma pow2_powr: "pow2 q = 2 powr (of_int q)"
proof (cases "0 \<le> q")
  case True
  then have "2 powr (of_int q) = (2::real) powr (real (nat q))" by simp
  also have "\<dots> = 2 ^ nat q" by (simp add: powr_realpow)
  finally show ?thesis using True by (simp add: pow2_def)
next
  case False
  then have "(2::real) powr (of_int q) = 2 powr (- real (nat (- q)))" by simp
  also have "\<dots> = 1 / 2 powr (real (nat (- q)))" by (simp add: powr_minus divide_inverse)
  also have "\<dots> = 1 / 2 ^ nat (- q)" by (simp add: powr_realpow)
  finally show ?thesis using False by (simp add: pow2_def)
qed

lemma pow2_pos: "0 < pow2 q"
  by (simp add: pow2_powr)

lemma pow2_mono: "q \<le> e \<Longrightarrow> pow2 q \<le> pow2 e"
  by (simp add: pow2_powr)

lemma pow2_succ: "pow2 (e + 1) = 2 * pow2 e"
  by (simp add: pow2_powr powr_add)

lemma binade_lower:
  "1 \<le> m \<Longrightarrow> pow2 (binade n m e) \<le> m * pow2 e"
proof (induction n arbitrary: m e)
  case 0
  have "pow2 e \<le> m * pow2 e" using 0 pow2_pos [of e] by (simp add: mult_le_cancel_right1)
  then show ?case by simp
next
  case (Suc n)
  show ?case
  proof (cases "2 \<le> m")
    case True
    then have "1 \<le> m / 2" by simp
    from Suc.IH [OF this, of "e + 1"] True show ?thesis by (simp add: pow2_succ)
  next
    case False
    have "pow2 e \<le> m * pow2 e" using Suc.prems pow2_pos [of e] by (simp add: mult_le_cancel_right1)
    with False Suc.prems show ?thesis by simp
  qed
qed

lemma round_half_even_ge: "of_int \<lfloor>y\<rfloor> \<le> (of_int (round_half_even y) :: real)"
  by (simp add: round_half_even_def Let_def)

lemma round_double_pos:
  assumes "1 \<le> x" shows "0 < round_double x"
proof -
  define e where "e = binade 2200 \<bar>x\<bar> 0"
  define q where "q = max (e - 52) (- 1074)"
  have ax: "\<bar>x\<bar> = x" using assms by simp
  have "pow2 e \<le> x * pow2 0" unfolding e_def ax using assms by (rule binade_lower)
  then have pe: "pow2 e \<le> x" by (simp add: pow2_def)
  have "pow2 q \<le> x"
  proof (cases "e - 52 \<le> - 1074")
    case True
    then have "q = - 1074" by (simp add: q_def)
    then have "pow2 q \<le> pow2 0" by (simp add: pow2_mono)
    then show ?thesis using assms by (simp add: pow2_def)
  next
    case False
    then have "q \<le> e" by (simp add: q_def)
    then have "pow2 q \<le> pow2 e" by (rule pow2_mono)
    with pe show ?thesis by simp
  qed
  then have "1 \<le> x / pow2 q" using pow2_pos [of q] by (simp add: le_divide_eq)
  then have "1 \<le> \<lfloor>x / pow2 q\<rfloor>" by simp
  then have "(1::real) \<le> of_int \<lfloor>x / pow2 q\<rfloor>" by linarith
  with round_half_even_ge [of "x / pow2 q"]
  have "(1::real) \<le> of_int (round_half_even (x / pow2 q))" by linarith
  then have "0 < of_int (round_half_even (x / pow2 q)) * pow2 q"
    using pow2_pos [of q] by (simp add: zero_less_mult_iff)
  moreover have "x \<noteq> 0" using assms by simp
  ultimately show ?thesis
    by (simp add: round_double_def Let_def e_def q_def ax)
qed

lemma float_of_int_total:
  assumes "1 \<le> n" and "n < 2 ^ 1024 - 2 ^ 970"
  shows "\<exists>d. float_of_int n = Inr d \<and> d \<noteq> 0"
proof -
  have "(1::real) \<le> of_int n" using assms(1) by simp
  from round_double_pos [OF this] assms show ?thesis
    by (auto simp: float_of_int_def)
qed

lemma float_of_int_overflow: "float_of_int (2 ^ 1024) = Inl OverflowError"
  by (simp add: float_of_int_def)

lemma c15: "round_double (15 / 100) = 5404319552844595 / 36028797018963968"
  by (simp add: double_eval)

lemma c15_reduced: "round_double (3 / 20) = 5404319552844595 / 36028797018963968"
  using c15 by simp

lemma nvt_ratio_total:
  assumes "max tx_count 1 < 2 ^ 1024 - 2 ^ 970"
  shows "\<exists>v. nvt_ratio_of tx_count quote_volume_24h = Inr v"
proof (cases quote_volume_24h)
  case None
  then show ?thesis by (simp add: nvt_ratio_of_def)
next
  case (Some qv)
  have "1 \<le> max tx_count 1" by simp
  from float_of_int_total [OF this assms] obtain d where
    d: "float_of_int (max tx_count 1) = Inr d" and nz: "d \<noteq> 0" by blast
  show ?thesis using Some d nz by (simp add: nvt_ratio_of_def bind_err_def py_div_def)
qed


section \<open>Properties of the sentiment score\<close>

lemma sentiment_total:
  assumes "max (case tc of None \<Rightarrow> 0 | Some n \<Rightarrow> n) 1 < 2 ^ 1024 - 2 ^ 970"
  shows "\<exists>s. compute_sentiment symbol p t tc qv m = Inr s"
proof -
  from nvt_ratio_total [OF assms, of qv] obtain v where
    "nvt_ratio_of (case tc of None \<Rightarrow> 0 | Some n \<Rightarrow> n) qv = Inr v" by blast
  then show ?thesis by (simp add: compute_sentiment_def Let_def)
qed

lemma sentiment_fields:
  assumes "compute_sentiment symbol p t tc qv m = Inr s"
  shows "se_combined_score s =
           max (- 1) (min 1 (fl_add (fl_div p 100)
             (fl_div (fl_sub 50 (rd_value (osc_rsi (tf_oscillators (tech_1d t))))) 100)))
       \<and> (se_combined_signal s, se_sentiment_class s, se_sentiment s) =
           (if se_combined_score s > round_double (15 / 100) then (BUY, ''POSITIVE'', ''BULLISH'')
            else if se_combined_score s < - round_double (15 / 100)
              then (SELL, ''NEGATIVE'', ''BEARISH'')
            else (HOLD, ''NEUTRAL'', ''NEUTRAL''))"
proof -
  define cs where
    "cs = max (- 1) (min 1 (fl_add (fl_div p 100)
             (fl_div (fl_sub 50 (rd_value (osc_rsi (tf_oscillators (tech_1d t))))) 100)))"
  define c where "c = round_double (15 / 100)"
  show ?thesis
    using assms
    unfolding compute_sentiment_def Let_def cs_def [symmetric] c_def [symmetric]
    by (auto split: sum.splits)
qed

lemma score_10_20:
  "max (- 1) (min 1 (fl_add (fl_div 10 100) (fl_div (fl_sub 50 20) 100)))
     = 3602879701896397 / 9007199254740992"
  by (simp add: fl_add_def fl_div_def fl_sub_def double_eval)

lemma score_5_40:
  "max (- 1) (min 1 (fl_add (fl_div 5 100) (fl_div (fl_sub 50 40) 100)))
     = 1351079888211149 / 9007199254740992"
  by (simp add: fl_add_def fl_div_def fl_sub_def double_eval)

text \<open>
  C5, in the arithmetic of the program. The score of every result is the double
  evaluation of \<open>p / 100 + (50 - r) / 100\<close>, each operation rounded, clamped to \<open>[-1, 1]\<close>,
  where \<open>r\<close> is the \<^verbatim>\<open>1d\<close> RSI value. The labels are BUY/POSITIVE/BULLISH exactly when this
  score is above the double \<^verbatim>\<open>0.15\<close>, SELL/NEGATIVE/BEARISH exactly when it is below
  \<^verbatim>\<open>-0.15\<close>, and HOLD/NEUTRAL/NEUTRAL exactly otherwise. \<open>p = 10\<close> and \<open>r = 20\<close> give the
  double \<^verbatim>\<open>0.4\<close>, which is \<open>3602879701896397 / 2 ^ 53\<close>, and the first labels. A result
  exists whenever the trade count can be converted to a float.
\<close>

theorem sentiment_score_and_class:
  "(max (case tc of None \<Rightarrow> 0 | Some n \<Rightarrow> n) 1 < 2 ^ 1024 - 2 ^ 970
      \<longrightarrow> (\<exists>s. compute_sentiment symbol p t tc qv m = Inr s))
   \<and> (compute_sentiment symbol p t tc qv m = Inr s \<longrightarrow>
        se_combined_score s =
          max (- 1) (min 1 (fl_add (fl_div p 100)
            (fl_div (fl_sub 50 (rd_value (osc_rsi (tf_oscillators (tech_1d t))))) 100)))
      \<and> ((se_combined_signal s, se_sentiment_class s, se_sentiment s) = (BUY, ''POSITIVE'', ''BULLISH'')
           \<longleftrightarrow> se_combined_score s > round_double (15 / 100))
      \<and> ((se_combined_signal s, se_sentiment_class s, se_sentiment s) = (SELL, ''NEGATIVE'', ''BEARISH'')
           \<longleftrightarrow> se_combined_score s < - round_double (15 / 100))
      \<and> ((se_combined_signal s, se_sentiment_class s, se_sentiment s) = (HOLD, ''NEUTRAL'', ''NEUTRAL'')
           \<longleftrightarrow> \<not> se_combined_score s > round_double (15 / 100)
               \<and> \<not> se_combined_score s < - round_double (15 / 100))
      \<and> (p = 10 \<and> rd_value (osc_rsi (tf_oscillators (tech_1d t))) = 20 \<longrightarrow>
           se_combined_score s = 3602879701896397 / 9007199254740992
           \<and> (se_combined_signal s, se_sentiment_class s, se_sentiment s)
               = (BUY, ''POSITIVE'', ''BULLISH'')))"
proof (intro conjI impI)
  assume "max (case tc of None \<Rightarrow> 0 | Some n \<Rightarrow> n) 1 < 2 ^ 1024 - 2 ^ 970"
  then show "\<exists>s. compute_sentiment symbol p t tc qv m = Inr s" by (rule sentiment_total)
next
  assume a: "compute_sentiment symbol p t tc qv m = Inr s"
  from sentiment_fields [OF a]
  show "se_combined_score s =
          max (- 1) (min 1 (fl_add (fl_div p 100)
            (fl_div (fl_sub 50 (rd_value (osc_rsi (tf_oscillators (tech_1d t))))) 100)))"
    by blast
next
  assume a: "compute_sentiment symbol p t tc qv m = Inr s"
  from sentiment_fields [OF a]
  show "(se_combined_signal s, se_sentiment_class s, se_sentiment s) = (BUY, ''POSITIVE'', ''BULLISH'')
           \<longleftrightarrow> se_combined_score s > round_double (15 / 100)"
    by simp
next
  assume a: "compute_sentiment symbol p t tc qv m = Inr s"
  from sentiment_fields [OF a]
  show "(se_combined_signal s, se_sentiment_class s, se_sentiment s) = (SELL, ''NEGATIVE'', ''BEARISH'')
           \<longleftrightarrow> se_combined_score s < - round_double (15 / 100)"
    by (auto simp: c15 c15_reduced)
next
  assume a: "compute_sentiment symbol p t tc qv m = Inr s"
  from sentiment_fields [OF a]
  show "(se_combined_signal s, se_sentiment_class s, se_sentiment s) = (HOLD, ''NEUTRAL'', ''NEUTRAL'')
           \<longleftrightarrow> \<not> se_combined_score s > round_double (15 / 100)
               \<and> \<not> se_combined_score s < - round_double (15 / 100)"
    by (auto simp: c15 c15_reduced)
next
  assume a: "compute_sentiment symbol p t tc qv m = Inr s"
    and b: "p = 10 \<and> rd_value (osc_rsi (tf_oscillators (tech_1d t))) = 20"
  from sentiment_fields [OF a] b score_10_20
  show "se_combined_score s = 3602879701896397 / 9007199254740992" by simp
next
  assume a: "compute_sentiment symbol p t tc qv m = Inr s"
    and b: "p = 10 \<and> rd_value (osc_rsi (tf_oscillators (tech_1d t))) = 20"
  from sentiment_fields [OF a] b score_10_20
  have v: "se_combined_score s = 3602879701896397 / 9007199254740992" by simp
  from sentiment_fields [OF a]
  show "(se_combined_signal s, se_sentiment_class s, se_sentiment s)
               = (BUY, ''POSITIVE'', ''BULLISH'')"
    unfolding v by (simp add: c15 c15_reduced)
qed

theorem sentiment_score_and_class_witness:
  "\<exists>s. compute_sentiment ''BTCUSDT'' 10
          (example_technical\<lparr>tech_1d := example_timeframe\<lparr>tf_oscillators :=
             \<lparr>osc_rsi = \<lparr>rd_value = 20, rd_signal = BUY\<rparr>,
              osc_macd = \<lparr>rd_value = 0, rd_signal = HOLD\<rparr>\<rparr>\<rparr>\<rparr>)
          (Some 50000) (Some 1000) 1 = Inr s
      \<and> se_combined_score s = 3602879701896397 / 9007199254740992
      \<and> se_combined_signal s = BUY
      \<and> se_sentiment_class s = ''POSITIVE'' \<and> se_sentiment s = ''BULLISH''"
proof -
  let ?t = "example_technical\<lparr>tech_1d := example_timeframe\<lparr>tf_oscillators :=
             \<lparr>osc_rsi = \<lparr>rd_value = 20, rd_signal = BUY\<rparr>,
              osc_macd = \<lparr>rd_value = 0, rd_signal = HOLD\<rparr>\<rparr>\<rparr>\<rparr>"
  have bound: "max (case Some (50000::int) of None \<Rightarrow> 0 | Some n \<Rightarrow> n) 1 < 2 ^ 1024 - 2 ^ 970"
    by simp
  from sentiment_score_and_class [of "Some 50000" "''BTCUSDT''" 10 ?t "Some 1000" 1] bound
  obtain s where s: "compute_sentiment ''BTCUSDT'' 10 ?t (Some 50000) (Some 1000) 1 = Inr s"
    by blast
  from sentiment_score_and_class [of "Some 50000" "''BTCUSDT''" 10 ?t "Some 1000" 1 s] s
  have "se_combined_score s = 3602879701896397 / 9007199254740992
      \<and> (se_combined_signal s, se_sentiment_class s, se_sentiment s)
           = (BUY, ''POSITIVE'', ''BULLISH'')"
    by simp
  with s show ?thesis by auto
qed

text \<open>
  The claim in exact arithmetic fails at \<open>p = 5\<close>, \<open>r = 40\<close>: \<open>5 / 100 + (50 - 40) / 100\<close>
  is \<open>15 / 100\<close>, not above 0.15, while the program computes \<^verbatim>\<open>0.15000000000000002\<close>
  (\<open>1351079888211149 / 2 ^ 53\<close>) and answers BUY.
\<close>

theorem sentiment_exact_score_counterexample:
  "\<exists>s. compute_sentiment ''BTCUSDT'' 5
          (example_technical\<lparr>tech_1d := example_timeframe\<lparr>tf_oscillators :=
             \<lparr>osc_rsi = \<lparr>rd_value = 40, rd_signal = HOLD\<rparr>,
              osc_macd = \<lparr>rd_value = 0, rd_signal = HOLD\<rparr>\<rparr>\<rparr>\<rparr>)
          None None 1 = Inr s
      \<and> se_combined_score s \<noteq> max (- 1) (min 1 (5 / 100 + (50 - 40) / 100))
      \<and> \<not> max (- 1) (min 1 (5 / 100 + (50 - 40) / 100)) > (15 / 100 :: real)
      \<and> se_combined_signal s = BUY"
proof -
  let ?t = "example_technical\<lparr>tech_1d := example_timeframe\<lparr>tf_oscillators :=
             \<lparr>osc_rsi = \<lparr>rd_value = 40, rd_signal = HOLD\<rparr>,
              osc_macd = \<lparr>rd_value = 0, rd_signal = HOLD\<rparr>\<rparr>\<rparr>\<rparr>"
  obtain s where s: "compute_sentiment ''BTCUSDT'' 5 ?t None None 1 = Inr s"
    using sentiment_total [of None "''BTCUSDT''" 5 ?t None 1] by auto
  from sentiment_fields [OF s] score_5_40
  have v: "se_combined_score s = 1351079888211149 / 9007199254740992" by simp
  from sentiment_fields [OF s]
  have l: "(se_combined_signal s, se_sentiment_class s, se_sentiment s)
             = (BUY, ''POSITIVE'', ''BULLISH'')"
    unfolding v by (simp add: c15 c15_reduced)
  from s v l show ?thesis by auto
qed

section \<open>No exception on numeric edge cases\<close>

lemma technical_total:
  "df \<noteq> [] \<Longrightarrow> \<exists>t. compute_technical_analysis lib df = Inr t"
  using technical_cases [of df lib] by auto

lemma forecast_total:
  assumes "df \<noteq> []" and "0 \<le> days"
  shows "\<exists>f. compute_lstm_like_prediction df days = Inr f"
proof (cases "length (tail 60 (map c_close df)) < 10")
  case True
  from forecast_short [OF assms True] show ?thesis by simp
next
  case False
  from forecast_long [OF assms False] show ?thesis by blast
qed

lemma lit_1e12: "round_double (1 / 10 ^ 12) = 4951760157141521 / 4951760157141521099596496896"
  by (simp add: double_eval)

lemma mvrv_total: "\<exists>v. compute_mvrv price df = Inr v"
proof -
  define lit where "lit = round_double (1 / 10 ^ 12)"
  have "0 < lit" unfolding lit_def lit_1e12 by simp
  then have pos: "max a lit \<noteq> 0" for a
    by (simp add: max_def)
  show ?thesis
    unfolding compute_mvrv_def Let_def py_div_def lit_def [symmetric]
    by (simp add: pos)
qed





section \<open>Properties of the request handler\<close>

lemma bind_err_Inr:
  "bind_err m f = Inr r \<Longrightarrow> \<exists>v. m = Inr v \<and> f v = Inr r"
  by (cases m) (simp_all add: bind_err_def)

lemma build_report_fields:
  assumes "build_report lib symbol limit ticker cp pcp vol qvol df = Inr r"
  shows "compute_technical_analysis lib (tail limit df) = Inr (ad_technical_analysis r)
       \<and> fr_confidence (ad_final_recommendation r) =
           min 95 (max 55 (70 +
             (sum_buy (sig_summary (tf_signals (tech_1d (ad_technical_analysis r))))
              - sum_sell (sig_summary (tf_signals (tech_1d (ad_technical_analysis r))))) * 10))"
proof -
  from assms obtain technical where
    t: "compute_technical_analysis lib (tail limit df) = Inr technical"
    and rest: "\<exists>lstm sentiment.
      r = \<lparr>ad_symbol = symbol,
           ad_current_price = (case cp of None \<Rightarrow> c_close (last (tail limit df)) | Some p \<Rightarrow> p),
           ad_price_change_percent = pcp, ad_volume_24h = vol, ad_quote_volume_24h = qvol,
           ad_technical_analysis = technical, ad_lstm_prediction = lstm,
           ad_sentiment_analysis = sentiment,
           ad_final_recommendation =
             \<lparr>fr_signal = tech_overall_signal technical,
              fr_confidence = min 95 (max 55 (70 +
                (sum_buy (sig_summary (tf_signals (tech_1d technical)))
                 - sum_sell (sig_summary (tf_signals (tech_1d technical)))) * 10))\<rparr>\<rparr>"
    unfolding build_report_def Let_def
    by (auto dest!: bind_err_Inr)
  from rest t show ?thesis by auto
qed

lemma respond_Report:
  assumes "respond lib symbol limit tv df = Report r"
  shows "\<exists>rows. df = Some (Frame rows) \<and> rows \<noteq> []
           \<and> build_report lib symbol limit (tv_ticker tv) (tv_current_price tv)
                (tv_price_change_percent tv) (tv_volume_24h tv) (tv_quote_volume_24h tv) rows = Inr r"
  using assms
  by (auto simp: respond_def split: option.splits payload.splits if_splits sum.splits)

lemma get_analysis_Report:
  assumes "fst (get_analysis lib fb fk now1 now2 symbol period_arg s) = Report r"
  shows "\<exists>limit tv df. respond lib symbol limit tv df = Report r"
  using assms
  by (auto simp: get_analysis_def Let_def split: prod.splits sum.splits)

lemma build_report_total:
  assumes "rows \<noteq> []" and "0 < limit"
  shows "\<exists>r. build_report lib symbol limit None cp pcp vol qvol rows = Inr r"
proof -
  have ne: "tail limit rows \<noteq> []" using assms by (rule tail_nonempty)
  obtain t where t: "compute_technical_analysis lib (tail limit rows) = Inr t"
    using technical_total [OF ne] by blast
  obtain f where f: "compute_lstm_like_prediction (tail limit rows) 7 = Inr f"
    using forecast_total [OF ne, of 7] by auto
  obtain v where v: "compute_mvrv (case cp of None \<Rightarrow> c_close (last (tail limit rows)) | Some p \<Rightarrow> p)
                       (tail limit rows) = Inr v"
    using mvrv_total by blast
  obtain s where s: "compute_sentiment symbol pcp t (Some 0) (Some qvol) v = Inr s"
    using sentiment_total [of "Some 0" symbol pcp t "Some qvol" v] by auto
  show ?thesis by (simp add: build_report_def Let_def bind_err_def t f v s)
qed

text \<open>
  C10. The confidence of every report the handler produces is
  \<open>70 + 10 * (buy - sell)\<close> of the \<^verbatim>\<open>1d\<close> vote summary, clamped to \<open>[55, 95]\<close>.
\<close>

theorem confidence_clamped:
  "fst (get_analysis lib fetch_binance_data fetch_binance_klines now1 now2 symbol period_arg s)
     = Report r \<longrightarrow>
   fr_confidence (ad_final_recommendation r) =
     min 95 (max 55 (70 + 10 *
       (sum_buy (sig_summary (tf_signals (tech_1d (ad_technical_analysis r))))
        - sum_sell (sig_summary (tf_signals (tech_1d (ad_technical_analysis r)))))))
   \<and> 55 \<le> fr_confidence (ad_final_recommendation r)
   \<and> fr_confidence (ad_final_recommendation r) \<le> 95"
proof
  assume a: "fst (get_analysis lib fetch_binance_data fetch_binance_klines now1 now2 symbol period_arg s)
     = Report r"
  from get_analysis_Report [OF a] obtain limit tv df where
    "respond lib symbol limit tv df = Report r" by blast
  from respond_Report [OF this] obtain rows where
    "build_report lib symbol limit (tv_ticker tv) (tv_current_price tv)
        (tv_price_change_percent tv) (tv_volume_24h tv) (tv_quote_volume_24h tv) rows = Inr r"
    by blast
  from build_report_fields [OF this]
  have c: "fr_confidence (ad_final_recommendation r) =
           min 95 (max 55 (70 +
             (sum_buy (sig_summary (tf_signals (tech_1d (ad_technical_analysis r))))
              - sum_sell (sig_summary (tf_signals (tech_1d (ad_technical_analysis r))))) * 10))"
    by blast
  show "fr_confidence (ad_final_recommendation r) =
     min 95 (max 55 (70 + 10 *
       (sum_buy (sig_summary (tf_signals (tech_1d (ad_technical_analysis r))))
        - sum_sell (sig_summary (tf_signals (tech_1d (ad_technical_analysis r)))))))
   \<and> 55 \<le> fr_confidence (ad_final_recommendation r)
   \<and> fr_confidence (ad_final_recommendation r) \<le> 95"
    unfolding c by (simp add: mult.commute)
qed

text \<open>
  The witness is a request on the empty cache, with no ticker for the symbol and one
  candle from the candle source: the three votes are HOLD and the confidence is 70.
\<close>

theorem confidence_clamped_witness:
  "\<exists>r. fst (get_analysis spec_indicators
              (\<lambda>n::nat. (Inr (Some (Tickers [])), Suc n))
              (\<lambda>sym interval limit n. (Inr (Some (Frame [day_candle 0 100])), Suc n))
              1000 1001 ''BTCUSDT'' None
              (\<lparr>data_cache = Map.empty, cache_timestamp = Map.empty\<rparr>, 0)) = Report r
      \<and> fr_confidence (ad_final_recommendation r) = 70"
proof -
  have tv: "read_ticker ''BTCUSDT'' (Some (Tickers [])) =
              Inr \<lparr>tv_ticker = None, tv_current_price = None, tv_price_change_percent = 0,
                   tv_volume_24h = 0, tv_quote_volume_24h = 0\<rparr>"
    by (simp add: read_ticker_def bind_err_def)
  obtain r where r: "build_report spec_indicators ''BTCUSDT'' 90 None None 0 0 0
                       [day_candle 0 100] = Inr r"
    using build_report_total [of "[day_candle 0 100]" 90 spec_indicators "''BTCUSDT''" None 0 0 0]
    by auto
  have lim: "period_to_limit (map lower_char ''90d'') = 90"
    by (simp add: period_to_limit_def lower_char_def)
  have g: "fst (get_analysis spec_indicators
              (\<lambda>n::nat. (Inr (Some (Tickers [])), Suc n))
              (\<lambda>sym interval limit n. (Inr (Some (Frame [day_candle 0 100])), Suc n))
              1000 1001 ''BTCUSDT'' None
              (\<lparr>data_cache = Map.empty, cache_timestamp = Map.empty\<rparr>, 0)) = Report r"
    using lim
    by (simp add: get_analysis_def get_cached_data_def fetch_fresh_def tv respond_def r)
  from build_report_fields [OF r] technical_example
  have t: "ad_technical_analysis r = example_technical" by (simp add: tail_def)
  from confidence_clamped [of spec_indicators "\<lambda>n::nat. (Inr (Some (Tickers [])), Suc n)"
      "\<lambda>sym interval limit n. (Inr (Some (Frame [day_candle 0 100])), Suc n)"
      1000 1001 "''BTCUSDT''" None "(\<lparr>data_cache = Map.empty, cache_timestamp = Map.empty\<rparr>, 0)" r] g
  have "fr_confidence (ad_final_recommendation r) = 70"
    by (simp add: t example_technical_def example_timeframe_def)
  with g show ?thesis by blast
qed

lemma get_cached_data_other_key:
  assumes "get_cached_data key fetch_func now (c, w) = (r, c', w')" and "key' \<noteq> key"
  shows "data_cache c' key' = data_cache c key' \<and> cache_timestamp c' key' = cache_timestamp c key'"
  using assms
  by (cases "fetch_func w")
     (auto simp: get_cached_data_def fetch_fresh_def
           split: option.splits sum.splits prod.splits if_splits)

lemma get_cached_data_refetch:
  assumes "\<not> (\<exists>v ts. data_cache c key = Some v \<and> cache_timestamp c key = Some ts \<and> now - ts < 300)"
    and "fst (fetch_func w) = Inr d"
  shows "fst (get_cached_data key fetch_func now (c, w)) = d"
  using assms
  by (cases "fetch_func w")
     (auto simp: get_cached_data_def fetch_fresh_def CACHE_DURATION_def
           split: option.splits sum.splits prod.splits)

lemma respond_empty:
  "respond lib symbol limit tv (Some (Frame [])) =
     ErrorResponse (Message ''Unable to fetch historical data for analysis'') 500"
  by (simp add: respond_def)

lemma klines_key_distinct: "''klines_'' @ symbol @ ''_1d_90'' \<noteq> ''binance_tickers''"
  by simp

lemma get_analysis_empty_frame:
  assumes "fst (get_cached_data (''klines_'' @ symbol @ ''_1d_90'') (fk symbol ''1d'' 90) now2
             (snd (get_cached_data ''binance_tickers'' fb now1 s))) = Some (Frame [])"
  shows "\<exists>b. fst (get_analysis lib fb fk now1 now2 symbol period_arg s) = ErrorResponse b 500"
  using assms
  by (auto simp: get_analysis_def Let_def respond_empty split: prod.splits sum.splits)

text \<open>
  C6. When the candle lookup of a request hands the handler a DataFrame without rows, the
  response is an error object with status 500 and no report. This is the case in
  particular when the cache has no entry for the candle key that is younger than 300
  seconds and the candle source returns a DataFrame without rows.
\<close>

theorem empty_window_fails:
  "(fst (get_cached_data (''klines_'' @ symbol @ ''_1d_90'') (fetch_binance_klines symbol ''1d'' 90)
           now2 (snd (get_cached_data ''binance_tickers'' fetch_binance_data now1 s)))
      = Some (Frame [])
    \<longrightarrow> (\<exists>b. fst (get_analysis lib fetch_binance_data fetch_binance_klines now1 now2 symbol
                    period_arg s) = ErrorResponse b 500))
   \<and> ((\<forall>w. fst (fetch_binance_klines symbol ''1d'' 90 w) = Inr (Some (Frame [])))
      \<and> \<not> (\<exists>v ts. data_cache (fst s) (''klines_'' @ symbol @ ''_1d_90'') = Some v
                  \<and> cache_timestamp (fst s) (''klines_'' @ symbol @ ''_1d_90'') = Some ts
                  \<and> now2 - ts < 300)
    \<longrightarrow> (\<exists>b. fst (get_analysis lib fetch_binance_data fetch_binance_klines now1 now2 symbol
                    period_arg s) = ErrorResponse b 500))"
proof (intro conjI impI)
  assume "fst (get_cached_data (''klines_'' @ symbol @ ''_1d_90'') (fetch_binance_klines symbol ''1d'' 90)
           now2 (snd (get_cached_data ''binance_tickers'' fetch_binance_data now1 s)))
      = Some (Frame [])"
  then show "\<exists>b. fst (get_analysis lib fetch_binance_data fetch_binance_klines now1 now2 symbol
                    period_arg s) = ErrorResponse b 500"
    by (rule get_analysis_empty_frame)
next
  assume h: "(\<forall>w. fst (fetch_binance_klines symbol ''1d'' 90 w) = Inr (Some (Frame [])))
      \<and> \<not> (\<exists>v ts. data_cache (fst s) (''klines_'' @ symbol @ ''_1d_90'') = Some v
                  \<and> cache_timestamp (fst s) (''klines_'' @ symbol @ ''_1d_90'') = Some ts
                  \<and> now2 - ts < 300)"
  obtain c w where s: "s = (c, w)" by (cases s)
  obtain r c1 w1 where l1: "get_cached_data ''binance_tickers'' fetch_binance_data now1 (c, w) = (r, c1, w1)"
    by (cases "get_cached_data ''binance_tickers'' fetch_binance_data now1 (c, w)") auto
  from get_cached_data_other_key [OF l1 klines_key_distinct [of symbol]]
  have same: "data_cache c1 (''klines_'' @ symbol @ ''_1d_90'') = data_cache c (''klines_'' @ symbol @ ''_1d_90'')
            \<and> cache_timestamp c1 (''klines_'' @ symbol @ ''_1d_90'') = cache_timestamp c (''klines_'' @ symbol @ ''_1d_90'')" .
  have nf: "\<not> (\<exists>v ts. data_cache c1 (''klines_'' @ symbol @ ''_1d_90'') = Some v
                  \<and> cache_timestamp c1 (''klines_'' @ symbol @ ''_1d_90'') = Some ts
                  \<and> now2 - ts < 300)"
    using h same s by simp
  have ft: "fst (fetch_binance_klines symbol ''1d'' 90 w1) = Inr (Some (Frame []))" using h by blast
  from get_cached_data_refetch [of c1 "''klines_'' @ symbol @ ''_1d_90''" now2
      "fetch_binance_klines symbol ''1d'' 90" w1 "Some (Frame [])", OF nf ft]
  have "fst (get_cached_data (''klines_'' @ symbol @ ''_1d_90'') (fetch_binance_klines symbol ''1d'' 90)
           now2 (snd (get_cached_data ''binance_tickers'' fetch_binance_data now1 s)))
      = Some (Frame [])"
    using s l1 by simp
  then show "\<exists>b. fst (get_analysis lib fetch_binance_data fetch_binance_klines now1 now2 symbol
                    period_arg s) = ErrorResponse b 500"
    by (rule get_analysis_empty_frame)
qed

theorem empty_window_fails_witness:
  "\<exists>b. fst (get_analysis spec_indicators
              (\<lambda>n::nat. (Inr (Some (Tickers [])), Suc n))
              (\<lambda>sym interval limit n. (Inr (Some (Frame [])), Suc n))
              1000 1001 ''FOOUSDT'' None
              (\<lparr>data_cache = Map.empty, cache_timestamp = Map.empty\<rparr>, 0)) = ErrorResponse b 500"
  using empty_window_fails [of "''FOOUSDT''" "\<lambda>sym interval limit n. (Inr (Some (Frame [])), Suc n)"
      1001 "\<lambda>n::nat. (Inr (Some (Tickers [])), Suc n)" 1000
      "(\<lparr>data_cache = Map.empty, cache_timestamp = Map.empty\<rparr>, 0)" spec_indicators None]
  by simp

end
